theory Spec2Isabelle
  imports
    Complex_Main
    "HOL-Library.AList"
    "HOL-Library.Sublist"
    "HOL-Library.List_Lexorder"
    "HOL-Library.Multiset"
begin

section \<open>Python values\<close>

subsection \<open>Strings\<close>

text \<open>
  A Python \<open>str\<close> is a sequence of Unicode code points and \<open>len\<close> counts code points,
  so a string is a list of code points here. The Japanese labels of the scripts are
  written out as their code points.
\<close>

type_synonym ustr = "nat list"

text \<open>\<open>str.isspace\<close> of one character; \<open>\s\<close> of \<open>re\<close> on a \<open>str\<close> matches the same set.\<close>

definition isspace :: "nat \<Rightarrow> bool" where
  "isspace c \<longleftrightarrow>
     (0x9 \<le> c \<and> c \<le> 0xD) \<or> (0x1C \<le> c \<and> c \<le> 0x20) \<or> c = 0x85 \<or> c = 0xA0 \<or>
     c = 0x1680 \<or> (0x2000 \<le> c \<and> c \<le> 0x200A) \<or> c = 0x2028 \<or> c = 0x2029 \<or>
     c = 0x202F \<or> c = 0x205F \<or> c = 0x3000"

text \<open>\<open>s.strip()\<close>\<close>

definition strip :: "ustr \<Rightarrow> ustr" where
  "strip s = rev (dropWhile isspace (rev (dropWhile isspace s)))"

text \<open>
  \<open>re.sub(r"\s+", " ", s)\<close>: every maximal run of whitespace becomes one space. The flag
  says that the previous character was whitespace.
\<close>

fun re_sub_ws :: "bool \<Rightarrow> ustr \<Rightarrow> ustr" where
  "re_sub_ws in_run [] = []"
| "re_sub_ws in_run (c # cs) =
     (if isspace c then (if in_run then re_sub_ws True cs else 0x20 # re_sub_ws True cs)
      else c # re_sub_ws False cs)"

text \<open>\<open>s.split()\<close>: the maximal runs of non-whitespace; \<open>cur\<close> is the word being read.\<close>

fun split_ws :: "ustr \<Rightarrow> ustr \<Rightarrow> ustr list" where
  "split_ws cur [] = (if cur = [] then [] else [cur])"
| "split_ws cur (c # cs) =
     (if isspace c then (if cur = [] then split_ws [] cs else cur # split_ws [] cs)
      else split_ws (cur @ [c]) cs)"

text \<open>\<open>sep.join(xs)\<close>\<close>

fun join :: "ustr \<Rightarrow> ustr list \<Rightarrow> ustr" where
  "join sep [] = []"
| "join sep [x] = x"
| "join sep (x # y # ys) = x @ sep @ join sep (y # ys)"

text \<open>\<open>k in s\<close> on strings is containment of a contiguous run.\<close>

fun str_in :: "ustr \<Rightarrow> ustr \<Rightarrow> bool" where
  "str_in k [] = (k = [])"
| "str_in k (c # cs) = (prefix k (c # cs) \<or> str_in k cs)"

subsection \<open>Dictionaries\<close>

text \<open>
  A \<open>dict\<close> keeps its keys in insertion order and the column order of the output depends
  on it, so a dictionary is an association list with one entry per key:
  \<open>d[k] = v\<close> is \<^const>\<open>AList.update\<close> (an existing key keeps its place, a new key goes
  last), \<open>d.get(k)\<close> is \<^const>\<open>map_of\<close>, \<open>d.keys()\<close> is \<open>map fst\<close>.
\<close>

type_synonym dict = "(ustr \<times> ustr) list"

definition dict_get :: "dict \<Rightarrow> ustr \<Rightarrow> ustr \<Rightarrow> ustr" where
  "dict_get d k dflt = (case map_of d k of None \<Rightarrow> dflt | Some v \<Rightarrow> v)"

definition setdefault :: "ustr \<Rightarrow> ustr \<Rightarrow> dict \<Rightarrow> dict" where
  "setdefault k v d = (if map_of d k = None then AList.update k v d else d)"

text \<open>All keys of a list of dictionaries, in iteration order.\<close>

definition all_keys :: "dict list \<Rightarrow> ustr list" where
  "all_keys records = concat (map (map fst) records)"

subsection \<open>The labels of the scripts\<close>

definition L_shutoku_nichiji :: ustr where
  "L_shutoku_nichiji = [0x53D6, 0x5F97, 0x65E5, 0x6642]"

definition L_shutoku_url :: ustr where
  "L_shutoku_url = [0x53D6, 0x5F97, 0x55, 0x52, 0x4C]"

definition L_meishou :: ustr where
  "L_meishou = [0x540D, 0x79F0]"

definition L_juusho :: ustr where
  "L_juusho = [0x4F4F, 0x6240]"

definition L_TEL :: ustr where
  "L_TEL = [0x54, 0x45, 0x4C]"

definition L_denwa :: ustr where
  "L_denwa = [0x96FB, 0x8A71]"

definition L_setsuritsu :: ustr where
  "L_setsuritsu = [0x8A2D, 0x7ACB]"

definition L_shihonkin :: ustr where
  "L_shihonkin = [0x8CC7, 0x672C, 0x91D1]"

definition L_nenshou :: ustr where
  "L_nenshou = [0x5E74, 0x5546]"

definition L_busho :: ustr where
  "L_busho = [0x90E8, 0x7F72]"

definition L_juugyouin :: ustr where
  "L_juugyouin = [0x5F93, 0x696D, 0x54E1]"

definition L_jigyou :: ustr where
  "L_jigyou = [0x4E8B, 0x696D]"

definition L_URL :: ustr where
  "L_URL = [0x55, 0x52, 0x4C]"

text \<open>
  The four required columns of every script (\<open>REQUIRED_COLUMNS\<close>): retrieval time,
  retrieval URL, name (\<open>L_meishou\<close>) and address (\<open>L_juusho\<close>).
\<close>

definition REQUIRED_COLUMNS :: "ustr list" where
  "REQUIRED_COLUMNS = [L_shutoku_nichiji, L_shutoku_url, L_meishou, L_juusho]"

section \<open>repre/scrape.py\<close>

text \<open>
  A table is the list of its rows (\<open>table.find_all("tr")\<close>), a row the list of the texts of
  its cells (\<open>get_text(separator=" ", strip=True)\<close> of each of \<open>tr.find_all(["td", "th"])\<close>).
\<close>

type_synonym repre_table = "ustr list list"

definition repre_key_map :: "(ustr \<times> ustr) list" where
  "repre_key_map =
     [(L_meishou, L_meishou), (L_juusho, L_juusho), (L_TEL, L_TEL), (L_denwa, L_TEL),
      (L_setsuritsu, L_setsuritsu), (L_shihonkin, L_shihonkin), (L_nenshou, L_nenshou),
      (L_busho, L_busho), (L_juugyouin, L_juugyouin), (L_jigyou, L_jigyou)]"

text \<open>The loop over \<open>key_map.keys()\<close>: the first label contained in the key decides.\<close>

fun repre_norm_key :: "(ustr \<times> ustr) list \<Rightarrow> ustr \<Rightarrow> ustr" where
  "repre_norm_key [] key = key"
| "repre_norm_key ((k, col) # km) key = (if str_in k key then col else repre_norm_key km key)"

fun repre_parse_rows :: "repre_table \<Rightarrow> dict \<Rightarrow> dict" where
  "repre_parse_rows [] data = data"
| "repre_parse_rows (cells # trs) data =
     (case cells of
        key # val # _ \<Rightarrow>
          repre_parse_rows trs
            (AList.update (repre_norm_key repre_key_map key) (strip (re_sub_ws False val)) data)
      | _ \<Rightarrow> repre_parse_rows trs data)"

definition repre_parse_company_table :: "repre_table \<Rightarrow> dict" where
  "repre_parse_company_table table =
     (let data = repre_parse_rows table []
      in if map_of data L_TEL = None then AList.update L_TEL [] data else data)"

section \<open>Column schema and CSV rows\<close>

text \<open>
  \<open>unify_columns\<close> of \<open>dairitenbosyuu/scrape.py\<close> and the header loop of \<open>write_csv\<close> of
  \<open>dairitenhonpo/scrape.py\<close> run the same inner loop over \<open>rec.keys()\<close>, on the list of
  columns and the set \<open>seen\<close>:
  \<^verbatim>\<open>for k in rec.keys():
    if k not in seen:
        seen.add(k); cols.append(k)\<close>
\<close>

fun add_unseen_keys :: "ustr list \<Rightarrow> ustr list \<times> ustr set \<Rightarrow> ustr list \<times> ustr set" where
  "add_unseen_keys [] (cols, seen) = (cols, seen)"
| "add_unseen_keys (k # ks) (cols, seen) =
     (if k \<notin> seen then add_unseen_keys ks (cols @ [k], insert k seen)
      else add_unseen_keys ks (cols, seen))"

text \<open>\<open>dairitenbosyuu\<close>: the loop over the records skips an empty record (\<open>if not rec\<close>).\<close>

fun bosyuu_unify_loop :: "dict list \<Rightarrow> ustr list \<times> ustr set \<Rightarrow> ustr list \<times> ustr set" where
  "bosyuu_unify_loop [] st = st"
| "bosyuu_unify_loop (rec # records) st =
     (if rec = [] then bosyuu_unify_loop records st
      else bosyuu_unify_loop records (add_unseen_keys (map fst rec) st))"

definition bosyuu_unify_columns :: "dict list \<Rightarrow> ustr list" where
  "bosyuu_unify_columns records =
     fst (bosyuu_unify_loop records (REQUIRED_COLUMNS, set REQUIRED_COLUMNS))"

text \<open>
  \<open>csv.DictWriter(f, fieldnames, extrasaction="ignore").writerow(rec)\<close> writes
  \<open>rec.get(k, "")\<close> for each field name in turn (\<open>restval\<close> is the empty string) and
  ignores the keys of \<open>rec\<close> that are no field names.
\<close>

definition DictWriter_row :: "ustr list \<Rightarrow> dict \<Rightarrow> ustr list" where
  "DictWriter_row fieldnames rec = map (\<lambda>k. dict_get rec k []) fieldnames"

text \<open>
  \<open>save_csv\<close> of \<open>dairitenbosyuu\<close>: nothing is written for an empty list of records;
  otherwise the header row and one row per record.
\<close>

definition bosyuu_save_csv :: "dict list \<Rightarrow> ustr list list option" where
  "bosyuu_save_csv records =
     (if records = [] then None
      else let cols = bosyuu_unify_columns records
           in Some (cols # map (DictWriter_row cols) records))"

text \<open>\<open>dairitenhonpo\<close>: the header of \<open>write_csv\<close>, then the rows of the file.\<close>

fun honpo_header_loop :: "dict list \<Rightarrow> ustr list \<times> ustr set \<Rightarrow> ustr list \<times> ustr set" where
  "honpo_header_loop [] st = st"
| "honpo_header_loop (rec # records) st =
     honpo_header_loop records (add_unseen_keys (map fst rec) st)"

definition honpo_header :: "dict list \<Rightarrow> ustr list" where
  "honpo_header records = fst (honpo_header_loop records (REQUIRED_COLUMNS, set REQUIRED_COLUMNS))"

definition honpo_write_csv :: "dict list \<Rightarrow> ustr list list" where
  "honpo_write_csv records =
     (let header = honpo_header records
      in header # map (DictWriter_row header) records)"

text \<open>
  \<open>franchise_no_madoguti\<close>: \<open>to_dataframe\<close>. The columns of \<open>pd.DataFrame(rows)\<close> for a list
  of dictionaries are their keys in order of first appearance; a cell is the row's value
  or missing (NaN, here \<open>None\<close>). A required column that is absent is added with the
  empty string in every row. The frame is then reordered to the required columns
  followed by \<open>sorted(other_cols)\<close>; \<open>sorted\<close> compares strings by code points.
\<close>

definition DataFrame_columns :: "dict list \<Rightarrow> ustr list" where
  "DataFrame_columns rows = fst (add_unseen_keys (all_keys rows) ([], {}))"

fun ensure_columns :: "ustr list \<Rightarrow> ustr list \<Rightarrow> ustr list" where
  "ensure_columns [] columns = columns"
| "ensure_columns (col # cols) columns =
     ensure_columns cols (if col \<notin> set columns then columns @ [col] else columns)"

definition madoguti_ordered :: "dict list \<Rightarrow> ustr list" where
  "madoguti_ordered rows =
     (let columns = ensure_columns REQUIRED_COLUMNS (DataFrame_columns rows);
          other_cols = filter (\<lambda>c. c \<notin> set REQUIRED_COLUMNS) columns
      in REQUIRED_COLUMNS @ sort other_cols)"

definition madoguti_cell :: "dict list \<Rightarrow> dict \<Rightarrow> ustr \<Rightarrow> ustr option" where
  "madoguti_cell rows row c =
     (if c \<in> set (DataFrame_columns rows) then map_of row c else Some [])"

definition madoguti_to_dataframe :: "dict list \<Rightarrow> ustr list \<times> ustr option list list" where
  "madoguti_to_dataframe rows =
     (let ordered = madoguti_ordered rows
      in (ordered, map (\<lambda>row. map (madoguti_cell rows row) ordered) rows))"

text \<open>\<open>df.to_csv\<close> writes a missing cell as the empty string.\<close>

definition to_csv :: "ustr list \<times> ustr option list list \<Rightarrow> ustr list list" where
  "to_csv df = fst df # map (map (\<lambda>cell. case cell of None \<Rightarrow> [] | Some v \<Rightarrow> v)) (snd df)"

section \<open>tabelog_all.py\<close>

text \<open>
  The site as \<open>crawl_all_details\<close> sees it: for the URL of a list page, \<open>fetch_html\<close>
  followed by \<open>parse_list_page_for_detail_urls\<close> gives the detail URLs of the page and
  the URL of the next page, if any; \<open>None\<close> stands for \<open>fetch_html\<close> raising
  \<open>ScrapeError\<close>, which \<open>crawl_all_details\<close> does not catch.
\<close>

type_synonym site = "ustr \<Rightarrow> (ustr list \<times> ustr option) option"

text \<open>
  The variables of the loop. \<open>fetched\<close> is not a variable of the source: it records the
  URLs passed to \<open>fetch_html\<close>, in order.
\<close>

record crawl_state =
  all_urls :: "ustr list"
  seen_pages :: "ustr set"
  next_url :: "ustr option"
  fetched :: "ustr list"

text \<open>
  How a run stands: the function returned, \<open>fetch_html\<close> raised, or the loop is still
  running when the iterations allowed are used up.
\<close>

datatype crawl_outcome = Returned crawl_state | Raised crawl_state | Running crawl_state

fun state_of :: "crawl_outcome \<Rightarrow> crawl_state" where
  "state_of (Returned s) = s"
| "state_of (Raised s) = s"
| "state_of (Running s) = s"

fun is_Running :: "crawl_outcome \<Rightarrow> bool" where
  "is_Running (Running s) = True"
| "is_Running _ = False"

text \<open>
  \<^verbatim>\<open>for u in detail_urls:
    if u not in all_urls:
        all_urls.append(u)\<close>
\<close>

fun append_new :: "ustr list \<Rightarrow> ustr list \<Rightarrow> ustr list" where
  "append_new [] all = all"
| "append_new (u # us) all = append_new us (if u \<notin> set all then all @ [u] else all)"

text \<open>\<open>while next_url and next_url not in seen_pages\<close>\<close>

definition loop_condition :: "crawl_state \<Rightarrow> bool" where
  "loop_condition s =
     (case next_url s of None \<Rightarrow> False | Some u \<Rightarrow> u \<noteq> [] \<and> u \<notin> seen_pages s)"

text \<open>One pass through the body of the loop; \<open>Inl\<close> when \<open>fetch_html\<close> raises.\<close>

definition loop_body :: "site \<Rightarrow> crawl_state \<Rightarrow> crawl_state + crawl_state" where
  "loop_body site s =
     (case next_url s of
        None \<Rightarrow> Inl s
      | Some u \<Rightarrow>
          (let s1 = s\<lparr>seen_pages := insert u (seen_pages s), fetched := fetched s @ [u]\<rparr>
           in case site u of
                None \<Rightarrow> Inl s1
              | Some (detail_urls, nxt) \<Rightarrow>
                  Inr (s1\<lparr>all_urls := append_new detail_urls (all_urls s1), next_url := nxt\<rparr>)))"

text \<open>The loop, for at most \<open>fuel\<close> passes.\<close>

fun crawl_loop :: "nat \<Rightarrow> site \<Rightarrow> crawl_state \<Rightarrow> crawl_outcome" where
  "crawl_loop 0 site s = (if loop_condition s then Running s else Returned s)"
| "crawl_loop (Suc fuel) site s =
     (if loop_condition s then
        (case loop_body site s of Inl s' \<Rightarrow> Raised s' | Inr s' \<Rightarrow> crawl_loop fuel site s')
      else Returned s)"

definition crawl_all_details :: "nat \<Rightarrow> site \<Rightarrow> ustr \<Rightarrow> crawl_outcome" where
  "crawl_all_details fuel site list_url =
     crawl_loop fuel site \<lparr>all_urls = [], seen_pages = {}, next_url = Some list_url, fetched = []\<rparr>"

section \<open>HTTP and exceptions\<close>

text \<open>
  The exceptions the scripts tell apart: \<open>requests.HTTPError\<close> (raised by
  \<open>raise_for_status\<close>, with the status code), \<open>requests.Timeout\<close>, any other
  \<open>requests.RequestException\<close>, and any other \<open>Exception\<close>, with its message.
  The first three are subclasses of \<open>requests.RequestException\<close>.
\<close>

datatype exn = HTTPError nat | Timeout | RequestException ustr | OtherException ustr

fun is_RequestException :: "exn \<Rightarrow> bool" where
  "is_RequestException (OtherException msg) = False"
| "is_RequestException e = True"

text \<open>
  What one call of \<open>requests.get\<close> gives: a response with its status code and its body
  decoded to text (\<open>resp.text\<close>, after the script has set \<open>resp.encoding\<close>), or an
  exception.
\<close>

datatype http_outcome = Response nat ustr | Raises exn

text \<open>\<open>resp.raise_for_status()\<close> raises \<open>HTTPError\<close> for the codes 400 to 599.\<close>

definition raise_for_status :: "nat \<Rightarrow> bool" where
  "raise_for_status status \<longleftrightarrow> 400 \<le> status \<and> status < 600"

section \<open>dairitenhonpo/scrape.py\<close>

definition L_kaishamei :: ustr where
  "L_kaishamei = [0x4F1A, 0x793E, 0x540D]"

definition L_shamei :: ustr where
  "L_shamei = [0x793E, 0x540D]"

definition L_shozaichi :: ustr where
  "L_shozaichi = [0x6240, 0x5728, 0x5730]"

definition L_daihyousha :: ustr where
  "L_daihyousha = [0x4EE3, 0x8868, 0x8005]"

definition L_jigyounaiyou :: ustr where
  "L_jigyounaiyou = [0x4E8B, 0x696D, 0x5185, 0x5BB9]"

definition L_meeru :: ustr where
  "L_meeru = [0x30E1, 0x30FC, 0x30EB]"

definition L_E_mail :: ustr where
  "L_E_mail = [0x45, 0x2D, 0x6D, 0x61, 0x69, 0x6C]"

definition L_kaishajouhou :: ustr where
  "L_kaishajouhou = [0x4F1A, 0x793E, 0x60C5, 0x5831]"

definition RETRY_COUNT :: nat where
  "RETRY_COUNT = 2"

definition RETRY_BACKOFF_SEC :: real where
  "RETRY_BACKOFF_SEC = 2"

definition KNOWN_FIELD_MAP :: "(ustr \<times> ustr) list" where
  "KNOWN_FIELD_MAP =
     [(L_kaishamei, L_meishou), (L_shamei, L_meishou), (L_shozaichi, L_juusho),
      (L_juusho, L_juusho), (L_setsuritsu, L_setsuritsu), (L_daihyousha, L_daihyousha),
      (L_shihonkin, L_shihonkin), (L_jigyounaiyou, L_jigyounaiyou), (L_denwa, L_denwa),
      (L_TEL, L_denwa), (L_meeru, L_meeru), (L_E_mail, L_meeru)]"

subsection \<open>fetch_html\<close>

text \<open>
  The third component of the result of \<open>fetch_html\<close>: \<open>f"HTTP {status}"\<close>, \<open>str(e)\<close> or
  \<open>"unknown error"\<close>.
\<close>

datatype message = HTTP nat | str exn | unknown_error

text \<open>What \<open>fetch_html\<close> does besides returning: its requests and its sleeps, in order.\<close>

datatype event = Request nat | Sleep real

type_synonym fetch_result = "ustr option \<times> nat option \<times> message option"

text \<open>
  One pass through the body of the loop \<open>for attempt in range(RETRY_COUNT + 1)\<close>, on what
  \<open>requests.get\<close> gives: either the function returns, or the pass ends in the retry
  branch of a handler, which sleeps and goes on when \<open>attempt < RETRY_COUNT\<close> and
  returns the result given otherwise. In the handler of \<open>HTTPError\<close> the status is that
  of the response.
\<close>

datatype attempt_end = Return fetch_result | Retry fetch_result

definition on_HTTPError :: "nat \<Rightarrow> attempt_end" where
  "on_HTTPError status =
     (if status \<noteq> 0 \<and> 400 \<le> status \<and> status < 500
        then Return (None, Some status, Some (HTTP status))
      else Retry (None, Some status,
                  Some (if status \<noteq> 0 then HTTP status else str (HTTPError status))))"

definition on_Exception :: "exn \<Rightarrow> attempt_end" where
  "on_Exception e = Retry (None, None, Some (str e))"

definition try_attempt :: "http_outcome \<Rightarrow> attempt_end" where
  "try_attempt got =
     (case got of
        Response status text \<Rightarrow>
          if 400 \<le> status \<and> status < 500 then Return (None, Some status, Some (HTTP status))
          else if raise_for_status status then on_HTTPError status
          else Return (Some text, Some status, None)
      | Raises (HTTPError status) \<Rightarrow> on_HTTPError status
      | Raises e \<Rightarrow> on_Exception e)"

text \<open>
  The loop, with \<open>n\<close> passes left; \<open>net attempt\<close> is what \<open>requests.get\<close> gives at that
  attempt. After the last pass the function returns \<open>(None, None, "unknown error")\<close>.
\<close>

fun fetch_html_loop ::
  "nat \<Rightarrow> nat \<Rightarrow> (nat \<Rightarrow> http_outcome) \<Rightarrow> event list \<Rightarrow> fetch_result \<times> event list" where
  "fetch_html_loop 0 attempt net trace = ((None, None, Some unknown_error), trace)"
| "fetch_html_loop (Suc n) attempt net trace =
     (let trace1 = trace @ [Request attempt] in
      case try_attempt (net attempt) of
        Return r \<Rightarrow> (r, trace1)
      | Retry r \<Rightarrow>
          if attempt < RETRY_COUNT
            then fetch_html_loop n (attempt + 1) net
                   (trace1 @ [Sleep (RETRY_BACKOFF_SEC * (real attempt + 1))])
          else (r, trace1))"

definition honpo_fetch_html :: "(nat \<Rightarrow> http_outcome) \<Rightarrow> fetch_result \<times> event list" where
  "honpo_fetch_html net = fetch_html_loop (RETRY_COUNT + 1) 0 net []"

subsection \<open>parse_company_table\<close>

text \<open>\<open>normalize_text\<close>: \<open>" ".join(s.split()).strip()\<close>, the empty string for \<open>None\<close>.\<close>

definition normalize_text :: "ustr option \<Rightarrow> ustr" where
  "normalize_text s =
     (case s of None \<Rightarrow> [] | Some t \<Rightarrow> if t = [] then [] else strip (join [0x20] (split_ws [] t)))"

text \<open>\<open>val_raw.replace("\r", "").replace("\n", " ").strip()\<close>\<close>

definition clean_value :: "ustr \<Rightarrow> ustr" where
  "clean_value v = strip (map (\<lambda>c. if c = 0xA then 0x20 else c) (filter (\<lambda>c. c \<noteq> 0xD) v))"

text \<open>The loop over \<open>KNOWN_FIELD_MAP.items()\<close>: the first label contained in the key.\<close>

fun known_field :: "(ustr \<times> ustr) list \<Rightarrow> ustr \<Rightarrow> ustr option" where
  "known_field [] key_raw = None"
| "known_field ((k, colname) # m) key_raw =
     (if str_in k key_raw then Some colname else known_field m key_raw)"

definition normalized_key :: "ustr \<Rightarrow> ustr" where
  "normalized_key key_raw =
     (case known_field KNOWN_FIELD_MAP key_raw of None \<Rightarrow> key_raw | Some colname \<Rightarrow> colname)"

text \<open>
  A table is the list of its rows (\<open>table.find_all("tr")\<close>); of a row the parser reads the
  text (\<open>get_text()\<close>) of its first \<open>th\<close> or \<open>dt\<close> and of its first \<open>td\<close> or \<open>dd\<close>, if any.
  \<open>harvest\<close> is what one row contributes: nothing (\<open>continue\<close>), or the normalised key
  and the cleaned value.
\<close>

type_synonym honpo_row = "ustr option \<times> ustr option"

type_synonym honpo_table = "honpo_row list"

fun harvest :: "honpo_row \<Rightarrow> (ustr \<times> ustr) option" where
  "harvest (Some th, Some td) =
     (let key_raw = normalize_text (Some th); val_raw = normalize_text (Some td)
      in if key_raw = [] then None else Some (normalized_key key_raw, clean_value val_raw))"
| "harvest _ = None"

text \<open>
  \<^verbatim>\<open>prev = result.get(normalized_key, "")
if len(val_raw) > len(prev):
    result[normalized_key] = val_raw\<close>
\<close>

definition keep_longer :: "ustr \<times> ustr \<Rightarrow> dict \<Rightarrow> dict" where
  "keep_longer kv result =
     (if length (snd kv) > length (dict_get result (fst kv) [])
      then AList.update (fst kv) (snd kv) result else result)"

fun honpo_parse_rows :: "honpo_table \<Rightarrow> dict \<Rightarrow> dict" where
  "honpo_parse_rows [] result = result"
| "honpo_parse_rows (tr # trs) result =
     (case harvest tr of
        None \<Rightarrow> honpo_parse_rows trs result
      | Some kv \<Rightarrow> honpo_parse_rows trs (keep_longer kv result))"

text \<open>The loop over the tables ends early once name and address are both present.\<close>

fun honpo_parse_tables :: "honpo_table list \<Rightarrow> dict \<Rightarrow> dict" where
  "honpo_parse_tables [] result = result"
| "honpo_parse_tables (table # tables) result =
     (let result' = honpo_parse_rows table result
      in if map_of result' L_meishou \<noteq> None \<and> map_of result' L_juusho \<noteq> None then result'
         else honpo_parse_tables tables result')"

text \<open>
  The document as the parser queries it: the \<open>h2\<close> and \<open>h3\<close> headings in document order,
  each with its text and the table that \<open>find_next(["table"])\<close> gives, and all tables.
\<close>

record honpo_soup =
  h2_h3_headings :: "(ustr \<times> honpo_table option) list"
  all_tables :: "honpo_table list"

definition honpo_tables :: "honpo_soup \<Rightarrow> honpo_table list" where
  "honpo_tables soup =
     (case find (\<lambda>tag. str_in L_kaishajouhou (normalize_text (Some (fst tag)))) (h2_h3_headings soup) of
        Some (text, Some nxt) \<Rightarrow> [nxt]
      | _ \<Rightarrow> []) @ all_tables soup"

definition honpo_parse_company_table :: "honpo_soup \<Rightarrow> dict" where
  "honpo_parse_company_table soup = honpo_parse_tables (honpo_tables soup) []"

subsection \<open>The world of a run\<close>

text \<open>
  What a run of a script gets from outside, for a document type \<open>'soup\<close>:
  \<open>requests_get url attempt\<close> is what the request for \<open>url\<close> gives at that attempt (a
  script without a retry loop only makes attempt 0); \<open>BeautifulSoup html\<close> is the parsed
  document, or the exception the parser raises; \<open>now url\<close> is the formatted time at which
  the record for \<open>url\<close> is built; \<open>as_completed urls\<close> is the order in which the tasks
  of the URLs complete; \<open>str_exn e\<close> is \<open>str(e)\<close> for an exception; \<open>resp_url url\<close> is the
  URL of the response to the request for \<open>url\<close> (\<open>resp.url\<close>, after redirects).
\<close>

record 'soup world =
  requests_get :: "ustr \<Rightarrow> nat \<Rightarrow> http_outcome"
  BeautifulSoup :: "ustr \<Rightarrow> exn + 'soup"
  now :: "ustr \<Rightarrow> ustr"
  as_completed :: "ustr list \<Rightarrow> ustr list"
  str_exn :: "exn \<Rightarrow> ustr"
  resp_url :: "ustr \<Rightarrow> ustr"

text \<open>
  The input file: missing, present but raising on \<open>open\<close> or while read, or read by
  \<open>csv.reader\<close> as a list of rows (a row is a list of cells; an empty line is the empty
  row).
\<close>

datatype input_csv = Missing | Unreadable | Rows "ustr list list"

text \<open>
  How a run of \<open>main\<close> ends: the exit status of the process (0 when \<open>main\<close> returns, 1 for
  \<open>sys.exit(1)\<close> and for an exception that nothing catches) and the rows of the CSV file
  written, if one is written.
\<close>

record run =
  exit_status :: nat
  written :: "ustr list list option"

definition str_http :: ustr where
  "str_http = [0x68, 0x74, 0x74, 0x70]"

definition str_http_colon_slashes :: ustr where
  "str_http_colon_slashes = [0x68, 0x74, 0x74, 0x70, 0x3A, 0x2F, 0x2F]"

definition str_https_colon_slashes :: ustr where
  "str_https_colon_slashes = [0x68, 0x74, 0x74, 0x70, 0x73, 0x3A, 0x2F, 0x2F]"

subsection \<open>dairitenhonpo: extract_record, read_urls, main\<close>

text \<open>
  \<^verbatim>\<open>for k, v in table_data.items():
    if k in REQUIRED_COLUMNS:
        continue
    record[k] = v\<close>
\<close>

fun honpo_add_items :: "dict \<Rightarrow> dict \<Rightarrow> dict" where
  "honpo_add_items [] record = record"
| "honpo_add_items ((k, v) # items) record =
     (if k \<in> set REQUIRED_COLUMNS then honpo_add_items items record
      else honpo_add_items items (AList.update k v record))"

text \<open>
  \<open>extract_record\<close>: \<open>None\<close> when the fetch fails, when the parser or the extraction
  raises (\<open>except Exception\<close>), and when the name is empty.
\<close>

definition honpo_extract_record :: "honpo_soup world \<Rightarrow> ustr \<Rightarrow> dict option" where
  "honpo_extract_record w url =
     (case fst (honpo_fetch_html (requests_get w url)) of
        (None, status, err) \<Rightarrow> None
      | (Some html, status, err) \<Rightarrow>
          (case BeautifulSoup w html of
             Inl e \<Rightarrow> None
           | Inr soup \<Rightarrow>
               (let table_data = honpo_parse_company_table soup;
                    name = strip (dict_get table_data L_meishou []);
                    address = strip (dict_get table_data L_juusho [])
                in if name = [] then None
                   else Some (honpo_add_items table_data
                          [(L_shutoku_nichiji, now w url), (L_shutoku_url, url),
                           (L_meishou, name), (L_juusho, address)]))))"

text \<open>
  \<open>read_urls\<close>: \<open>open\<close> is not guarded, so a missing or unreadable file is an exception.
  The first row is skipped as a header when its first cell does not start with
  \<open>"http"\<close>.
\<close>

definition first_cell_url :: "ustr list \<Rightarrow> ustr option" where
  "first_cell_url row =
     (case row of [] \<Rightarrow> None | c # _ \<Rightarrow> if strip c = [] then None else Some (strip c))"

definition honpo_read_urls :: "input_csv \<Rightarrow> exn + ustr list" where
  "honpo_read_urls f =
     (case f of
        Missing \<Rightarrow> Inl (OtherException [])
      | Unreadable \<Rightarrow> Inl (OtherException [])
      | Rows rows \<Rightarrow>
          Inr (case rows of
                 [] \<Rightarrow> []
               | row0 # _ \<Rightarrow>
                   (let first_cell = (case row0 of [] \<Rightarrow> [] | c # _ \<Rightarrow> c);
                        start_idx = (if prefix str_http first_cell then 0 else 1)
                    in List.map_filter first_cell_url (drop start_idx rows))))"

text \<open>
  The collection loop of \<open>main\<close>: \<open>future.result()\<close> stands outside any \<open>try\<close>; the task
  \<open>extract_record\<close> raises nothing, so the loop only appends the records that are not
  \<open>None\<close>. Then the records are sorted by URL (a stable sort) and written.
\<close>

definition honpo_records :: "honpo_soup world \<Rightarrow> ustr list \<Rightarrow> dict list" where
  "honpo_records w urls = List.map_filter (honpo_extract_record w) (as_completed w urls)"

definition honpo_main :: "honpo_soup world \<Rightarrow> input_csv \<Rightarrow> run" where
  "honpo_main w f =
     (case honpo_read_urls f of
        Inl e \<Rightarrow> \<lparr>exit_status = 1, written = None\<rparr>
      | Inr urls \<Rightarrow>
          if urls = [] then \<lparr>exit_status = 1, written = None\<rparr>
          else \<lparr>exit_status = 0,
                written = Some (honpo_write_csv
                  (sort_key (\<lambda>r. dict_get r L_shutoku_url []) (honpo_records w urls)))\<rparr>)"

section \<open>dairitenbosyuu/scrape.py\<close>

subsection \<open>fetch\<close>

text \<open>
  One call of \<open>requests.get\<close>, no loop: the text for status 200, \<open>None\<close> for any other
  status and for a \<open>requests.RequestException\<close>; any other exception is not caught
  (\<open>Inl\<close>).
\<close>

definition bosyuu_fetch :: "http_outcome \<Rightarrow> exn + ustr option" where
  "bosyuu_fetch got =
     (case got of
        Response status text \<Rightarrow> if status = 200 then Inr (Some text) else Inr None
      | Raises e \<Rightarrow> if is_RequestException e then Inr None else Inl e)"

subsection \<open>The document and the patterns\<close>

definition L_denwabangou :: ustr where
  "L_denwabangou = [0x96FB, 0x8A71, 0x756A, 0x53F7]"

definition L_boshuukigyou :: ustr where
  "L_boshuukigyou = [0x52DF, 0x96C6, 0x4F01, 0x696D]"

definition L_boshuuchiiki :: ustr where
  "L_boshuuchiiki = [0x52DF, 0x96C6, 0x5730, 0x57DF]"

definition L_shokihiyou :: ustr where
  "L_shokihiyou = [0x521D, 0x671F, 0x8CBB, 0x7528]"

definition L_kigyoumei :: ustr where
  "L_kigyoumei = [0x4F01, 0x696D, 0x540D]"

definition L_uneigaisha :: ustr where
  "L_uneigaisha = [0x904B, 0x55B6, 0x4F1A, 0x793E]"

definition L_jigyoushamei :: ustr where
  "L_jigyoushamei = [0x4E8B, 0x696D, 0x8005, 0x540D]"

definition L_kabushikigaisha :: ustr where
  "L_kabushikigaisha = [0x682A, 0x5F0F, 0x4F1A, 0x793E]"

definition L_yuugengaisha :: ustr where
  "L_yuugengaisha = [0x6709, 0x9650, 0x4F1A, 0x793E]"

definition L_goudougaisha :: ustr where
  "L_goudougaisha = [0x5408, 0x540C, 0x4F1A, 0x793E]"

definition EXTRA_COLUMNS :: "ustr list" where
  "EXTRA_COLUMNS =
     [L_daihyousha, L_setsuritsu, L_shihonkin, L_jigyounaiyou, L_shozaichi, L_denwabangou,
      L_meeru, L_boshuukigyou, L_boshuuchiiki, L_shokihiyou]"

text \<open>\<open>textnorm\<close>: \<open>re.sub(r"\s+", " ", s).strip()\<close>\<close>

definition textnorm :: "ustr \<Rightarrow> ustr" where
  "textnorm s = strip (re_sub_ws False s)"

text \<open>
  The document as the script queries it: the tables (\<open>find_all("table")\<close>), each the list
  of its rows (\<open>find_all("tr")\<close>), each the texts of its \<open>th\<close> and \<open>td\<close> cells
  (\<open>get_text(" ", strip=True)\<close>); the text nodes in document order, which
  \<open>soup.find(string=re.compile(label))\<close> searches for the first one that contains the
  label; the texts of all \<open>h1\<close>, then all \<open>h2\<close>, then all \<open>h3\<close>; the texts of all \<open>p\<close>,
  then all \<open>li\<close>, then all \<open>div\<close>; the text of the whole document.
\<close>

record bosyuu_soup =
  soup_tables :: "ustr list list list"
  soup_strings :: "ustr list"
  soup_h1_h2_h3 :: "ustr list"
  soup_p_li_div :: "ustr list"
  soup_text :: ustr

text \<open>
  The regular expressions whose matching is that of the \<open>re\<close> library, as functions
  from the text searched to the text matched: \<open>heading_pat\<close> is group 2 of the search for
  the heading pattern (a label, a colon, the name); the other three are group 0 of
  \<open>search\<close> with the compiled patterns of the same names.
\<close>

record patterns =
  heading_pat :: "ustr \<Rightarrow> ustr option"
  ADDRESS_PAT :: "ustr \<Rightarrow> ustr option"
  PHONE_PAT :: "ustr \<Rightarrow> ustr option"
  EMAIL_PAT :: "ustr \<Rightarrow> ustr option"

subsection \<open>extract_table_kv\<close>

text \<open>
  What one row contributes: nothing, or its key and value (both normalised and
  non-empty); the dictionary is then assigned, \<open>kv[key] = val\<close>.
\<close>

definition bosyuu_harvest :: "ustr list \<Rightarrow> (ustr \<times> ustr) option" where
  "bosyuu_harvest cells =
     (case cells of
        c0 # c1 # _ \<Rightarrow>
          (let key = textnorm c0; val = textnorm c1
           in if key \<noteq> [] \<and> val \<noteq> [] then Some (key, val) else None)
      | _ \<Rightarrow> None)"

fun bosyuu_table_rows :: "ustr list list \<Rightarrow> dict \<Rightarrow> dict" where
  "bosyuu_table_rows [] kv = kv"
| "bosyuu_table_rows (cells # trs) kv =
     (case bosyuu_harvest cells of
        None \<Rightarrow> bosyuu_table_rows trs kv
      | Some (key, val) \<Rightarrow> bosyuu_table_rows trs (AList.update key val kv))"

fun bosyuu_tables_loop :: "ustr list list list \<Rightarrow> dict \<Rightarrow> dict" where
  "bosyuu_tables_loop [] kv = kv"
| "bosyuu_tables_loop (table # tables) kv = bosyuu_tables_loop tables (bosyuu_table_rows table kv)"

definition extract_table_kv :: "bosyuu_soup \<Rightarrow> dict" where
  "extract_table_kv soup = bosyuu_tables_loop (soup_tables soup) []"

subsection \<open>guess_name_from_headings\<close>

text \<open>\<open>txt.split(":")[-1]\<close>: the text after the last colon.\<close>

definition after_last_colon :: "ustr \<Rightarrow> ustr" where
  "after_last_colon txt = rev (takeWhile (\<lambda>c. c \<noteq> 0x3A) (rev txt))"

text \<open>The first loop: for each label, the text node that contains it.\<close>

definition label_candidate :: "bosyuu_soup \<Rightarrow> ustr \<Rightarrow> ustr list" where
  "label_candidate soup label =
     (case find (str_in label) (soup_strings soup) of
        None \<Rightarrow> []
      | Some node \<Rightarrow>
          (let txt = textnorm node
           in if 0x3A \<in> set txt
              then (let part = strip (after_last_colon txt) in if part \<noteq> [] then [part] else [])
              else []))"

text \<open>The second loop: the headings.\<close>

definition heading_candidate :: "patterns \<Rightarrow> ustr \<Rightarrow> ustr list" where
  "heading_candidate re h =
     (let t = textnorm h
      in (case heading_pat re t of None \<Rightarrow> [] | Some g \<Rightarrow> [textnorm g]) @
         (if str_in L_kabushikigaisha t \<or> str_in L_yuugengaisha t then [t] else []))"

text \<open>The third loop: \<open>candidates.insert(0, kv[key])\<close>.\<close>

fun insert_kv_candidates :: "dict \<Rightarrow> ustr list \<Rightarrow> ustr list \<Rightarrow> ustr list" where
  "insert_kv_candidates kv [] candidates = candidates"
| "insert_kv_candidates kv (key # keys) candidates =
     insert_kv_candidates kv keys
       (case map_of kv key of
          None \<Rightarrow> candidates
        | Some v \<Rightarrow> if v \<noteq> [] then v # candidates else candidates)"

text \<open>The fourth loop: normalise, drop the empty and the repeated candidates.\<close>

fun unique_candidates :: "ustr list \<Rightarrow> ustr list \<Rightarrow> ustr list" where
  "unique_candidates [] unique = unique"
| "unique_candidates (c # cs) unique =
     (let c' = textnorm c
      in unique_candidates cs (if c' \<noteq> [] \<and> c' \<notin> set unique then unique @ [c'] else unique))"

definition guess_name_from_headings :: "patterns \<Rightarrow> bosyuu_soup \<Rightarrow> ustr option" where
  "guess_name_from_headings re soup =
     (let candidates =
            concat (map (label_candidate soup)
              [L_boshuukigyou, L_kigyoumei, L_kaishamei, L_uneigaisha, L_jigyoushamei]) @
            concat (map (heading_candidate re) (soup_h1_h2_h3 soup));
          kv = extract_table_kv soup;
          candidates' = insert_kv_candidates kv [L_boshuukigyou, L_kigyoumei, L_kaishamei] candidates;
          unique = unique_candidates candidates' []
      in case find (\<lambda>c. str_in L_kabushikigaisha c \<or> str_in L_yuugengaisha c \<or>
                         str_in L_goudougaisha c) unique of
           Some c \<Rightarrow> Some c
         | None \<Rightarrow> (case unique of [] \<Rightarrow> None | c # _ \<Rightarrow> Some c))"

subsection \<open>extract_address, extract_extras, parse_page\<close>

definition extract_address :: "patterns \<Rightarrow> bosyuu_soup \<Rightarrow> dict \<Rightarrow> ustr option" where
  "extract_address re soup kv =
     (case find (\<lambda>key. case map_of kv key of None \<Rightarrow> False | Some v \<Rightarrow> v \<noteq> [])
             [L_shozaichi, L_juusho] of
        Some key \<Rightarrow> map_of kv key
      | None \<Rightarrow>
          (let text_blobs = filter (\<lambda>t. t \<noteq> []) (map textnorm (soup_p_li_div soup))
           in case List.map_filter (ADDRESS_PAT re) text_blobs of
                [] \<Rightarrow> None
              | m # _ \<Rightarrow> Some (textnorm m)))"

fun extras_from_table :: "dict \<Rightarrow> ustr list \<Rightarrow> dict \<Rightarrow> dict" where
  "extras_from_table kv [] out = out"
| "extras_from_table kv (key # keys) out =
     extras_from_table kv keys
       (case map_of kv key of
          None \<Rightarrow> out
        | Some v \<Rightarrow> if v \<noteq> [] then AList.update key v out else out)"

definition fill_from_text :: "ustr \<Rightarrow> ustr option \<Rightarrow> dict \<Rightarrow> dict" where
  "fill_from_text key m out =
     (if map_of out key = None then (case m of None \<Rightarrow> out | Some g \<Rightarrow> AList.update key g out)
      else out)"

definition extract_extras :: "patterns \<Rightarrow> bosyuu_soup \<Rightarrow> dict \<Rightarrow> dict" where
  "extract_extras re soup kv =
     (let out = extras_from_table kv EXTRA_COLUMNS [];
          whole_text = textnorm (soup_text soup);
          out1 = fill_from_text L_denwabangou (PHONE_PAT re whole_text) out
      in fill_from_text L_meeru (EMAIL_PAT re whole_text) out1)"

text \<open>
  \<^verbatim>\<open>for k, v in extras.items():
    if v:
        record[k] = v\<close>
\<close>

fun merge_extras :: "dict \<Rightarrow> dict \<Rightarrow> dict" where
  "merge_extras [] record = record"
| "merge_extras ((k, v) # extras) record =
     merge_extras extras (if v \<noteq> [] then AList.update k v record else record)"

text \<open>
  \<open>parse_page\<close>, on the parsed document (the call of the parser stands in
  \<open>bosyuu_process_url\<close>): \<open>None\<close> when no name is found.
\<close>

definition parse_page :: "patterns \<Rightarrow> ustr \<Rightarrow> ustr \<Rightarrow> bosyuu_soup \<Rightarrow> dict option" where
  "parse_page re timestamp url soup =
     (let kv = extract_table_kv soup;
          name = guess_name_from_headings re soup
      in case name of
           None \<Rightarrow> None
         | Some n \<Rightarrow>
             if n = [] then None
             else
               (let addr = extract_address re soup kv;
                    extras = extract_extras re soup kv;
                    record = [(L_shutoku_nichiji, timestamp), (L_shutoku_url, url), (L_meishou, n),
                              (L_juusho, case addr of None \<Rightarrow> [] | Some a \<Rightarrow> a)];
                    record1 = merge_extras extras record
                in Some (extras_from_table kv [L_boshuuchiiki, L_shokihiyou] record1)))"

subsection \<open>process_url, read_urls, main\<close>

text \<open>
  \<open>process_url\<close> has no \<open>try\<close>: an exception that \<open>fetch\<close> does not catch, or one of the
  parser, leaves the function (\<open>Inl\<close>).
\<close>

definition bosyuu_process_url ::
  "patterns \<Rightarrow> bosyuu_soup world \<Rightarrow> ustr \<Rightarrow> exn + dict option" where
  "bosyuu_process_url re w url =
     (case bosyuu_fetch (requests_get w url 0) of
        Inl e \<Rightarrow> Inl e
      | Inr None \<Rightarrow> Inr None
      | Inr (Some html) \<Rightarrow>
          if html = [] then Inr None
          else (case BeautifulSoup w html of
                  Inl e \<Rightarrow> Inl e
                | Inr soup \<Rightarrow> Inr (parse_page re (now w url) url soup)))"

text \<open>
  \<open>read_urls\<close>: a missing file gives the empty list; a row counts when its first cell,
  stripped, starts with \<open>"http://"\<close> or \<open>"https://"\<close>.
\<close>

definition bosyuu_row_url :: "ustr list \<Rightarrow> ustr option" where
  "bosyuu_row_url row =
     (case row of
        [] \<Rightarrow> None
      | c # _ \<Rightarrow>
          (let url = strip c
           in if url \<noteq> [] \<and> (prefix str_http_colon_slashes url \<or> prefix str_https_colon_slashes url)
              then Some url else None))"

definition bosyuu_read_urls :: "input_csv \<Rightarrow> exn + ustr list" where
  "bosyuu_read_urls f =
     (case f of
        Missing \<Rightarrow> Inr []
      | Unreadable \<Rightarrow> Inl (OtherException [])
      | Rows rows \<Rightarrow> Inr (List.map_filter bosyuu_row_url rows))"

text \<open>
  The collection loop of \<open>main\<close>: \<open>fut.result()\<close> stands in a \<open>try\<close> with
  \<open>except Exception\<close>; a record is appended when it is neither \<open>None\<close> nor empty and its
  name is not empty.
\<close>

definition bosyuu_collect :: "exn + dict option \<Rightarrow> dict option" where
  "bosyuu_collect result =
     (case result of
        Inl e \<Rightarrow> None
      | Inr None \<Rightarrow> None
      | Inr (Some rec) \<Rightarrow> if rec \<noteq> [] \<and> dict_get rec L_meishou [] \<noteq> [] then Some rec else None)"

definition bosyuu_results :: "patterns \<Rightarrow> bosyuu_soup world \<Rightarrow> ustr list \<Rightarrow> dict list" where
  "bosyuu_results re w urls =
     List.map_filter (\<lambda>url. bosyuu_collect (bosyuu_process_url re w url)) (as_completed w urls)"

text \<open>\<open>main\<close> returns when there is no URL; nothing calls \<open>sys.exit\<close>.\<close>

definition bosyuu_main :: "patterns \<Rightarrow> bosyuu_soup world \<Rightarrow> input_csv \<Rightarrow> run" where
  "bosyuu_main re w f =
     (case bosyuu_read_urls f of
        Inl e \<Rightarrow> \<lparr>exit_status = 1, written = None\<rparr>
      | Inr urls \<Rightarrow>
          if urls = [] then \<lparr>exit_status = 0, written = None\<rparr>
          else \<lparr>exit_status = 0, written = bosyuu_save_csv (bosyuu_results re w urls)\<rparr>)"

section \<open>franchise_no_madoguti/scrape.py\<close>

definition L_kaishagaiyou :: ustr where
  "L_kaishagaiyou = [0x4F1A, 0x793E, 0x6982, 0x8981]"

definition L_kaishajouhou_section :: ustr where
  "L_kaishajouhou_section = [0x4F1A, 0x793E, 0x60C5, 0x5831, 0x30BB, 0x30AF, 0x30B7, 0x30E7, 0x30F3]"

definition L_setsuritsunengappi :: ustr where
  "L_setsuritsunengappi = [0x8A2D, 0x7ACB, 0x5E74, 0x6708, 0x65E5]"

definition L_daihyoutorishimariyaku :: ustr where
  "L_daihyoutorishimariyaku = [0x4EE3, 0x8868, 0x53D6, 0x7DE0, 0x5F79]"

definition L_daihyou :: ustr where
  "L_daihyou = [0x4EE3, 0x8868]"

definition L_gyoumunaiyou :: ustr where
  "L_gyoumunaiyou = [0x696D, 0x52D9, 0x5185, 0x5BB9]"

definition L_shainsuu :: ustr where
  "L_shainsuu = [0x793E, 0x54E1, 0x6570]"

definition L_juugyouinsuu :: ustr where
  "L_juugyouinsuu = [0x5F93, 0x696D, 0x54E1, 0x6570]"

definition L_koushikisaito :: ustr where
  "L_koushikisaito = [0x516C, 0x5F0F, 0x30B5, 0x30A4, 0x30C8]"

definition L_saito :: ustr where
  "L_saito = [0x30B5, 0x30A4, 0x30C8]"

definition L_hoomupeeji :: ustr where
  "L_hoomupeeji = [0x30DB, 0x30FC, 0x30E0, 0x30DA, 0x30FC, 0x30B8]"

definition L_shougou :: ustr where
  "L_shougou = [0x5546, 0x53F7]"

definition L_houjinmei :: ustr where
  "L_houjinmei = [0x6CD5, 0x4EBA, 0x540D]"

definition L_eraa :: ustr where
  "L_eraa = [0x30A8, 0x30E9, 0x30FC]"

definition L_kumiai :: ustr where
  "L_kumiai = [0x7D44, 0x5408]"

definition L_koushiki :: ustr where
  "L_koushiki = [0x516C, 0x5F0F]"

definition str_fc_mado_com :: ustr where
  "str_fc_mado_com = [0x66, 0x63, 0x2D, 0x6D, 0x61, 0x64, 0x6F, 0x2E, 0x63, 0x6F, 0x6D]"

definition str_slash_sep :: ustr where
  "str_slash_sep = [0x20, 0x2F, 0x20]"

subsection \<open>label_to_key\<close>

text \<open>
  Each pattern of \<open>LABEL_PATTERNS\<close> is an alternation of literal strings, searched with
  \<open>re.IGNORECASE\<close>: it matches when one of its alternatives is contained in the label,
  letters compared without case. Only the ASCII letters of \<open>URL\<close> and \<open>TEL\<close> have case.
\<close>

definition LABEL_PATTERNS :: "(ustr list \<times> ustr) list" where
  "LABEL_PATTERNS =
     [([L_kaishajouhou, L_kaishagaiyou], L_kaishajouhou_section),
      ([L_juusho, L_shozaichi], L_juusho),
      ([L_setsuritsu, L_setsuritsunengappi], L_setsuritsu),
      ([L_daihyousha, L_daihyoutorishimariyaku, L_daihyou], L_daihyousha),
      ([L_shihonkin], L_shihonkin),
      ([L_jigyounaiyou, L_gyoumunaiyou, L_jigyou], L_jigyounaiyou),
      ([L_juugyouin, L_shainsuu, L_juugyouinsuu], L_juugyouin),
      ([L_URL, L_koushikisaito, L_saito, L_hoomupeeji], L_URL),
      ([L_denwa, L_TEL, L_denwabangou], L_denwa),
      ([L_shozaichi], L_juusho)]"

definition ascii_lower :: "nat \<Rightarrow> nat" where
  "ascii_lower c = (if 0x41 \<le> c \<and> c \<le> 0x5A then c + 0x20 else c)"

definition search_any :: "ustr list \<Rightarrow> ustr \<Rightarrow> bool" where
  "search_any alternatives s = (\<exists>k \<in> set alternatives. str_in k s)"

definition search_any_ignorecase :: "ustr list \<Rightarrow> ustr \<Rightarrow> bool" where
  "search_any_ignorecase alternatives s =
     (\<exists>k \<in> set alternatives. str_in (map ascii_lower k) (map ascii_lower s))"

definition normalize_space :: "ustr \<Rightarrow> ustr" where
  "normalize_space s = strip (re_sub_ws False s)"

fun first_pattern :: "(ustr list \<times> ustr) list \<Rightarrow> ustr \<Rightarrow> ustr" where
  "first_pattern [] lab = lab"
| "first_pattern ((pat, key) # pats) lab =
     (if search_any_ignorecase pat lab then key else first_pattern pats lab)"

definition label_to_key :: "ustr \<Rightarrow> ustr" where
  "label_to_key label = first_pattern LABEL_PATTERNS (normalize_space label)"

text \<open>
  \<open>extract_text(el)\<close> on the text \<open>el.get_text(separator=" ", strip=True)\<close> of an element,
  the empty string when there is no element.
\<close>

definition extract_text :: "ustr option \<Rightarrow> ustr" where
  "extract_text el = (case el of None \<Rightarrow> [] | Some txt \<Rightarrow> normalize_space txt)"

subsection \<open>The document and the patterns\<close>

text \<open>What stands after a \<open>strong\<close> or \<open>b\<close> element: nothing, a tag or a string.\<close>

datatype sibling = NoSibling | TagSibling ustr | StringSibling ustr

text \<open>
  A candidate section as \<open>extract_company_info_from_section\<close> queries it: for every \<open>dt\<close>
  of every \<open>dl\<close>, its text and the text of the \<open>dd\<close> that \<open>find_next_sibling("dd")\<close>
  gives, if any; for every \<open>tr\<close> of every table, the texts of its first \<open>th\<close> and first
  \<open>td\<close>, if any; the text of the section; for every \<open>strong\<close> or \<open>b\<close>, its text and its
  next sibling; the texts of the \<open>p\<close> elements.
\<close>

record section_node =
  sec_dt_dd :: "(ustr \<times> ustr option) list"
  sec_th_td :: "(ustr option \<times> ustr option) list"
  sec_text :: ustr
  sec_strong :: "(ustr \<times> sibling) list"
  sec_p :: "ustr list"

text \<open>
  The document: the sections that \<open>find_company_section\<close> returns (it navigates the tree
  only); for \<open>pick_name\<close> the texts of all \<open>li\<close>, \<open>span\<close> and \<open>a\<close> elements in document
  order, of all \<open>h1\<close> and then all \<open>h2\<close>, and the title string if the document has one
  that is not empty; the text of the whole document; the \<open>a\<close> elements with an \<open>href\<close>,
  each as its \<open>href\<close> and its text.
\<close>

record madoguti_soup =
  company_sections :: "section_node list"
  soup_li_span_a :: "ustr list"
  soup_h1_h2 :: "ustr list"
  soup_title :: "ustr option"
  soup_full_text :: ustr
  soup_links :: "(ustr \<times> ustr) list"

text \<open>
  The regular expressions left to the \<open>re\<close> library: the two line patterns of
  \<open>parse_label_value_text\<close> (groups 1 and 2 of \<open>re.match\<close>), the title pattern of
  \<open>pick_name\<close> (group 1 of \<open>re.search\<close>) and the address pattern of \<open>pick_address\<close>
  (group 0 of \<open>re.search\<close>).
\<close>

record madoguti_patterns =
  colon_line :: "ustr \<Rightarrow> (ustr \<times> ustr) option"
  dash_line :: "ustr \<Rightarrow> (ustr \<times> ustr) option"
  title_pat :: "ustr \<Rightarrow> ustr option"
  address_pat :: "ustr \<Rightarrow> ustr option"

subsection \<open>parse_label_value_text\<close>

text \<open>\<open>str.splitlines()\<close>: the line boundaries of Python, \<open>\r\n\<close> counting as one.\<close>

definition is_linebreak :: "nat \<Rightarrow> bool" where
  "is_linebreak c \<longleftrightarrow>
     (0xA \<le> c \<and> c \<le> 0xD) \<or> (0x1C \<le> c \<and> c \<le> 0x1E) \<or> c = 0x85 \<or> c = 0x2028 \<or> c = 0x2029"

fun splitlines :: "ustr \<Rightarrow> ustr \<Rightarrow> ustr list" where
  "splitlines cur [] = (if cur = [] then [] else [cur])"
| "splitlines cur [c] = (if is_linebreak c then [cur] else [cur @ [c]])"
| "splitlines cur (c # d # cs) =
     (if c = 0xD \<and> d = 0xA then cur # splitlines [] cs
      else if is_linebreak c then cur # splitlines [] (d # cs)
      else splitlines (cur @ [c]) (d # cs))"

definition parse_label_value_text :: "madoguti_patterns \<Rightarrow> ustr \<Rightarrow> (ustr \<times> ustr) list" where
  "parse_label_value_text re raw =
     (let lines = filter (\<lambda>l. l \<noteq> []) (map normalize_space (splitlines [] raw))
      in List.map_filter
           (\<lambda>line. case colon_line re line of Some m \<Rightarrow> Some m | None \<Rightarrow> dash_line re line)
           lines)"

subsection \<open>extract_company_info_from_section\<close>

text \<open>The loop over the definition lists: \<open>data[key] = val\<close> when the value is not empty.\<close>

fun stage_dl :: "(ustr \<times> ustr option) list \<Rightarrow> dict \<Rightarrow> dict" where
  "stage_dl [] data = data"
| "stage_dl ((dt, dd) # rest) data =
     (let key = label_to_key (extract_text (Some dt)); val = extract_text dd
      in stage_dl rest (if val \<noteq> [] then AList.update key val data else data))"

text \<open>The loop over the tables: the same assignment, for rows with a \<open>th\<close> and a \<open>td\<close>.\<close>

fun stage_table :: "(ustr option \<times> ustr option) list \<Rightarrow> dict \<Rightarrow> dict" where
  "stage_table [] data = data"
| "stage_table ((Some th, Some td) # rest) data =
     (let key = label_to_key (extract_text (Some th)); val = extract_text (Some td)
      in stage_table rest (if val \<noteq> [] then AList.update key val data else data))"
| "stage_table (tr # rest) data = stage_table rest data"

text \<open>The labelled lines of the text: \<open>data.setdefault(key, value)\<close>.\<close>

fun stage_lines :: "(ustr \<times> ustr) list \<Rightarrow> dict \<Rightarrow> dict" where
  "stage_lines [] data = data"
| "stage_lines ((label, v) # rest) data =
     stage_lines rest (if v \<noteq> [] then setdefault (label_to_key label) v data else data)"

text \<open>
  The emphasised labels: the text of the next sibling, taken with \<open>setdefault\<close> when it
  has no colon and at most 300 characters.
\<close>

definition next_text :: "sibling \<Rightarrow> ustr" where
  "next_text sib =
     (case sib of
        NoSibling \<Rightarrow> []
      | TagSibling txt \<Rightarrow> extract_text (Some txt)
      | StringSibling s \<Rightarrow> if s = [] then [] else normalize_space s)"

fun stage_strong :: "(ustr \<times> sibling) list \<Rightarrow> dict \<Rightarrow> dict" where
  "stage_strong [] data = data"
| "stage_strong ((strong, sib) # rest) data =
     (let label = extract_text (Some strong); val = next_text sib
      in stage_strong rest
           (if val \<noteq> [] \<and> 0xFF1A \<notin> set val \<and> 0x3A \<notin> set val \<and> length val \<le> 300
            then setdefault (label_to_key label) val data else data))"

text \<open>
  The paragraphs: only when the key \<open>L_jigyounaiyou\<close> (business description) is not in
  \<open>data\<close>, the first three paragraphs of 30 characters or more, joined.
\<close>

definition stage_paragraphs :: "ustr list \<Rightarrow> dict \<Rightarrow> dict" where
  "stage_paragraphs ps data =
     (if map_of data L_jigyounaiyou = None then
        (let paragraphs = filter (\<lambda>t. t \<noteq> [] \<and> 30 \<le> length t) (map normalize_space ps)
         in if paragraphs \<noteq> [] then
              AList.update L_jigyounaiyou (join str_slash_sep (take 3 paragraphs)) data
            else data)
      else data)"

text \<open>The structured stage (definition lists, then tables) and the stages after it.\<close>

definition structured_stage :: "section_node \<Rightarrow> dict" where
  "structured_stage sec = stage_table (sec_th_td sec) (stage_dl (sec_dt_dd sec) [])"

definition later_stages :: "madoguti_patterns \<Rightarrow> section_node \<Rightarrow> dict \<Rightarrow> dict" where
  "later_stages re sec data =
     stage_paragraphs (sec_p sec)
       (stage_strong (sec_strong sec)
          (stage_lines (parse_label_value_text re (extract_text (Some (sec_text sec)))) data))"

definition extract_company_info_from_section :: "madoguti_patterns \<Rightarrow> section_node \<Rightarrow> dict" where
  "extract_company_info_from_section re sec = later_stages re sec (structured_stage sec)"

subsection \<open>pick_name, pick_address\<close>

definition pick_name :: "madoguti_patterns \<Rightarrow> madoguti_soup \<Rightarrow> ustr option" where
  "pick_name re soup =
     (let crumb_candidates =
            filter (search_any [L_kabushikigaisha, L_yuugengaisha, L_kumiai, L_goudougaisha])
              (map (\<lambda>el. extract_text (Some el)) (soup_li_span_a soup))
      in case sort_key length crumb_candidates of
           c # _ \<Rightarrow> Some c
         | [] \<Rightarrow>
             (case find (search_any [L_kabushikigaisha, L_yuugengaisha, L_goudougaisha])
                     (map (\<lambda>h. extract_text (Some h)) (soup_h1_h2 soup)) of
                Some txt \<Rightarrow> Some txt
              | None \<Rightarrow>
                  (case soup_title soup of
                     None \<Rightarrow> None
                   | Some title \<Rightarrow> title_pat re (normalize_space title))))"

definition pick_address :: "madoguti_patterns \<Rightarrow> dict \<Rightarrow> madoguti_soup \<Rightarrow> ustr option" where
  "pick_address re info_map soup =
     (case map_of info_map L_juusho of
        Some a \<Rightarrow>
          if a \<noteq> [] then Some a
          else map_option normalize_space (address_pat re (extract_text (Some (soup_full_text soup))))
      | None \<Rightarrow>
          map_option normalize_space (address_pat re (extract_text (Some (soup_full_text soup)))))"

subsection \<open>fetch, scrape_one and the loop of main\<close>

text \<open>
  \<open>fetch\<close>: one call of the session (its retries are those of the adapter): \<open>None\<close> for a
  status outside 200 to 299 and for a \<open>RequestException\<close>.
\<close>

definition madoguti_fetch :: "http_outcome \<Rightarrow> exn + ustr option" where
  "madoguti_fetch got =
     (case got of
        Response status text \<Rightarrow>
          if \<not> (200 \<le> status \<and> status < 300) then Inr None else Inr (Some text)
      | Raises e \<Rightarrow> if is_RequestException e then Inr None else Inl e)"

text \<open>
  \<^verbatim>\<open>for k, v in extracted.items():
    if k not in info_map and v:
        info_map[k] = v\<close>
\<close>

fun merge_section :: "dict \<Rightarrow> dict \<Rightarrow> dict" where
  "merge_section [] info_map = info_map"
| "merge_section ((k, v) # extracted) info_map =
     merge_section extracted
       (if map_of info_map k = None \<and> v \<noteq> [] then AList.update k v info_map else info_map)"

fun merge_sections :: "madoguti_patterns \<Rightarrow> section_node list \<Rightarrow> dict \<Rightarrow> dict" where
  "merge_sections re [] info_map = info_map"
| "merge_sections re (sec # sections) info_map =
     merge_sections re sections (merge_section (extract_company_info_from_section re sec) info_map)"

text \<open>
  The loop over the keys \<open>L_kaishamei\<close>, \<open>L_shougou\<close>, \<open>L_houjinmei\<close>, \<open>L_meishou\<close>:
  \<^verbatim>\<open>if k in info_map and not name:
    name = info_map[k]\<close>
\<close>

fun name_from_info :: "dict \<Rightarrow> ustr list \<Rightarrow> ustr option \<Rightarrow> ustr option" where
  "name_from_info info_map [] name = name"
| "name_from_info info_map (k # ks) name =
     name_from_info info_map ks
       (case map_of info_map k of
          None \<Rightarrow> name
        | Some v \<Rightarrow> if name = None \<or> name = Some [] then Some v else name)"

text \<open>
  The loop over \<open>info_map.items()\<close>: every item but those of the keys \<open>L_juusho\<close> and
  \<open>L_meishou\<close> is assigned, \<open>base[k] = v\<close>.
\<close>

fun copy_info :: "dict \<Rightarrow> dict \<Rightarrow> dict" where
  "copy_info [] base = base"
| "copy_info ((k, v) # items) base =
     (if k = L_juusho \<or> k = L_meishou then copy_info items base
      else copy_info items (AList.update k v base))"

text \<open>The first link that is absolute and either named as a site or outside the portal.\<close>

definition official_link :: "(ustr \<times> ustr) list \<Rightarrow> ustr option" where
  "official_link links =
     map_option fst
       (find (\<lambda>a. prefix str_http (fst a) \<and>
                  (search_any [L_koushiki, L_saito, L_hoomupeeji, L_URL] (extract_text (Some (snd a))) \<or>
                   \<not> str_in str_fc_mado_com (fst a)))
          links)"

definition or_empty :: "ustr option \<Rightarrow> ustr" where
  "or_empty s = (case s of None \<Rightarrow> [] | Some t \<Rightarrow> t)"

text \<open>
  \<open>scrape_one\<close>: always a row, with the empty string for a name or an address that was
  not found; an exception of the fetch or of the parser leaves the function (\<open>Inl\<close>).
\<close>

definition scrape_one :: "madoguti_patterns \<Rightarrow> madoguti_soup world \<Rightarrow> ustr \<Rightarrow> exn + dict" where
  "scrape_one re w url =
     (let base = [(L_shutoku_nichiji, now w url), (L_shutoku_url, url), (L_meishou, []),
                  (L_juusho, [])]
      in case madoguti_fetch (requests_get w url 0) of
           Inl e \<Rightarrow> Inl e
         | Inr None \<Rightarrow> Inr base
         | Inr (Some html) \<Rightarrow>
             (case BeautifulSoup w html of
                Inl e \<Rightarrow> Inl e
              | Inr soup \<Rightarrow>
                  (let info_map = merge_sections re (company_sections soup) [];
                       name = name_from_info info_map
                                [L_kaishamei, L_shougou, L_houjinmei, L_meishou] (pick_name re soup);
                       address = pick_address re info_map soup;
                       base1 = AList.update L_juusho (or_empty address)
                                 (AList.update L_meishou (or_empty name) base);
                       base2 = copy_info info_map base1
                   in Inr (if map_of base2 L_URL = None
                           then (case official_link (soup_links soup) of
                                   None \<Rightarrow> base2
                                 | Some href \<Rightarrow> AList.update L_URL href base2)
                           else base2))))"

text \<open>
  The loop of \<open>main\<close>: the row of every task is appended; for a task that raised, a row
  with the URL, empty name and address and the text of the exception (\<open>L_eraa\<close>); the
  time of that row is written with dashes instead of slashes, which \<open>now\<close> does not
  tell apart.
\<close>

definition madoguti_row :: "madoguti_patterns \<Rightarrow> madoguti_soup world \<Rightarrow> ustr \<Rightarrow> dict" where
  "madoguti_row re w url =
     (case scrape_one re w url of
        Inr row \<Rightarrow> row
      | Inl e \<Rightarrow> [(L_shutoku_nichiji, now w url), (L_shutoku_url, url), (L_meishou, []),
                  (L_juusho, []), (L_eraa, str_exn w e)])"

definition madoguti_results :: "madoguti_patterns \<Rightarrow> madoguti_soup world \<Rightarrow> ustr list \<Rightarrow> dict list" where
  "madoguti_results re w urls = map (madoguti_row re w) (as_completed w urls)"

section \<open>repre/scrape.py: the run\<close>

text \<open>
  \<open>fetch_html\<close>: one request; \<open>raise_for_status\<close> turns a 4xx or 5xx status into an
  \<open>HTTPError\<close>; nothing is caught here.
\<close>

definition repre_fetch_html :: "http_outcome \<Rightarrow> exn + ustr" where
  "repre_fetch_html got =
     (case got of
        Response status text \<Rightarrow> if raise_for_status status then Inl (HTTPError status) else Inr text
      | Raises e \<Rightarrow> Inl e)"

text \<open>
  The document: the table that \<open>find_recruit_company_table\<close> returns, if any (it
  navigates the tree only), and all tables.
\<close>

record repre_soup =
  recruit_company_table :: "repre_table option"
  soup_table_list :: "repre_table list"

definition build_row :: "ustr \<Rightarrow> ustr \<Rightarrow> dict \<Rightarrow> dict" where
  "build_row timestamp url parsed =
     [(L_shutoku_nichiji, timestamp), (L_shutoku_url, url),
      (L_meishou, dict_get parsed L_meishou []), (L_juusho, dict_get parsed L_juusho []),
      (L_TEL, dict_get parsed L_TEL []), (L_setsuritsu, dict_get parsed L_setsuritsu []),
      (L_shihonkin, dict_get parsed L_shihonkin []), (L_nenshou, dict_get parsed L_nenshou []),
      (L_busho, dict_get parsed L_busho []), (L_juugyouin, dict_get parsed L_juugyouin []),
      (L_jigyou, dict_get parsed L_jigyou [])]"

definition scrape_company_info_single :: "repre_soup world \<Rightarrow> ustr \<Rightarrow> exn + dict list" where
  "scrape_company_info_single w url =
     (case repre_fetch_html (requests_get w url 0) of
        Inl e \<Rightarrow> Inl e
      | Inr html \<Rightarrow>
          (case BeautifulSoup w html of
             Inl e \<Rightarrow> Inl e
           | Inr soup \<Rightarrow>
               Inr (case recruit_company_table soup of
                      Some main_table \<Rightarrow>
                        [build_row (now w url) (resp_url w url) (repre_parse_company_table main_table)]
                    | None \<Rightarrow>
                        map (build_row (now w url) (resp_url w url))
                          (filter (\<lambda>parsed. dict_get parsed L_meishou [] \<noteq> [] \<or>
                                            dict_get parsed L_juusho [] \<noteq> [])
                             (map repre_parse_company_table (soup_table_list soup))))))"

text \<open>
  \<open>process_url\<close>: the three handlers print a line each and fall through to
  \<open>return []\<close>; \<open>except Exception\<close> comes last and catches whatever the first two do not.
\<close>

datatype diagnostic = HTTPError_line | Timeout_line | Error_line

definition repre_process_url :: "repre_soup world \<Rightarrow> ustr \<Rightarrow> dict list \<times> diagnostic option" where
  "repre_process_url w url =
     (case scrape_company_info_single w url of
        Inr rows \<Rightarrow> (rows, None)
      | Inl (HTTPError status) \<Rightarrow> ([], Some HTTPError_line)
      | Inl Timeout \<Rightarrow> ([], Some Timeout_line)
      | Inl e \<Rightarrow> ([], Some Error_line))"

text \<open>
  \<open>read_urls_from_csv\<close>: rows before the first URL are skipped unless their first cell,
  lowered, starts with \<open>"http"\<close>. Only \<open>H\<close>, \<open>T\<close> and \<open>P\<close> lower to the letters
  of \<open>"http"\<close>.
\<close>

fun repre_read_rows :: "ustr list list \<Rightarrow> ustr list \<Rightarrow> ustr list" where
  "repre_read_rows [] urls = urls"
| "repre_read_rows (row # rows) urls =
     (case row of
        [] \<Rightarrow> repre_read_rows rows urls
      | c # _ \<Rightarrow>
          (let candidate = strip c
           in if candidate = [] then repre_read_rows rows urls
              else if urls = [] \<and> \<not> prefix str_http (map ascii_lower candidate)
                then repre_read_rows rows urls
              else repre_read_rows rows (urls @ [candidate])))"

definition read_urls_from_csv :: "input_csv \<Rightarrow> exn + ustr list" where
  "read_urls_from_csv f =
     (case f of
        Missing \<Rightarrow> Inl (OtherException [])
      | Unreadable \<Rightarrow> Inl (OtherException [])
      | Rows rows \<Rightarrow> Inr (repre_read_rows rows []))"

text \<open>
  The collection loop of \<open>main\<close>: \<open>all_rows.extend(rows)\<close> for every task; the tasks raise
  nothing, so its own \<open>except Exception\<close> is never entered.
\<close>

definition repre_all_rows :: "repre_soup world \<Rightarrow> ustr list \<Rightarrow> dict list" where
  "repre_all_rows w urls = concat (map (\<lambda>url. fst (repre_process_url w url)) (as_completed w urls))"

definition repre_fieldnames :: "ustr list" where
  "repre_fieldnames =
     [L_shutoku_nichiji, L_shutoku_url, L_meishou, L_juusho, L_TEL, L_setsuritsu, L_shihonkin,
      L_nenshou, L_busho, L_juugyouin, L_jigyou]"

text \<open>
  \<open>main\<close>: \<open>argv\<close> is \<open>sys.argv\<close>, \<open>int_of\<close> is \<open>int\<close> on a string (\<open>None\<close> for
  \<open>ValueError\<close>), \<open>file_at\<close> gives the file at a path. The steps in order: the usage
  check, the conversion of the third argument, the reading of the URLs, the check that
  there are some, the executor (which raises for a width that is not positive), the
  loop and the writing.
\<close>

definition repre_main ::
  "repre_soup world \<Rightarrow> (ustr \<Rightarrow> int option) \<Rightarrow> (ustr \<Rightarrow> input_csv) \<Rightarrow> ustr list \<Rightarrow> run" where
  "repre_main w int_of file_at argv =
     (if length argv < 2 then \<lparr>exit_status = 1, written = None\<rparr>
      else
        (case (if 4 \<le> length argv then int_of (argv ! 3) else Some 10) of
           None \<Rightarrow> \<lparr>exit_status = 1, written = None\<rparr>
         | Some max_workers \<Rightarrow>
             (case read_urls_from_csv (file_at (argv ! 1)) of
                Inl e \<Rightarrow> \<lparr>exit_status = 1, written = None\<rparr>
              | Inr urls \<Rightarrow>
                  if urls = [] then \<lparr>exit_status = 1, written = None\<rparr>
                  else if max_workers \<le> 0 then \<lparr>exit_status = 1, written = None\<rparr>
                  else \<lparr>exit_status = 0,
                        written = Some (repre_fieldnames #
                                    map (DictWriter_row repre_fieldnames) (repre_all_rows w urls))\<rparr>)))"

section \<open>Vocabulary of the statements\<close>

text \<open>The position of the first occurrence of a key in a sequence of keys.\<close>

definition first_pos :: "ustr \<Rightarrow> ustr list \<Rightarrow> nat" where
  "first_pos k ks = length (takeWhile (\<lambda>x. x \<noteq> k) ks)"

text \<open>\<open>cols\<close> lists its columns in the order in which they first occur in \<open>ks\<close>.\<close>

definition in_first_seen_order :: "ustr list \<Rightarrow> ustr list \<Rightarrow> bool" where
  "in_first_seen_order cols ks = sorted_wrt (\<lambda>a b. first_pos a ks < first_pos b ks) cols"

text \<open>
  A column schema for \<open>records\<close>: the four required columns first, then every other key
  of the records exactly once, in order of first occurrence, or in ascending order.
\<close>

definition first_seen_schema :: "ustr list \<Rightarrow> dict list \<Rightarrow> bool" where
  "first_seen_schema cols records \<longleftrightarrow>
     take 4 cols = REQUIRED_COLUMNS \<and> distinct (drop 4 cols) \<and>
     set (drop 4 cols) = set (all_keys records) - set REQUIRED_COLUMNS \<and>
     in_first_seen_order (drop 4 cols) (all_keys records)"

definition sorted_schema :: "ustr list \<Rightarrow> dict list \<Rightarrow> bool" where
  "sorted_schema cols records \<longleftrightarrow>
     take 4 cols = REQUIRED_COLUMNS \<and> distinct (drop 4 cols) \<and>
     set (drop 4 cols) = set (all_keys records) - set REQUIRED_COLUMNS \<and>
     sorted (drop 4 cols)"

text \<open>
  The projection of a record onto a schema: one cell per column, the record's value or
  the empty string; keys of the record outside the schema leave no trace.
\<close>

definition projection :: "ustr list \<Rightarrow> dict \<Rightarrow> ustr list" where
  "projection cols rec = map (\<lambda>k. case map_of rec k of Some v \<Rightarrow> v | None \<Rightarrow> []) cols"

subsection \<open>Example records\<close>

text \<open>
  Two records with the required columns and one further column each: the year of
  foundation (\<open>L_setsuritsu\<close>) in the first, the representative (\<open>L_daihyousha\<close>) in the
  second. Both keys occur in the records of \<open>dairitenbosyuu\<close> and in the rows of
  \<open>franchise_no_madoguti\<close>; \<open>L_daihyousha\<close> sorts before \<open>L_setsuritsu\<close>.
\<close>

definition ex_rec_setsuritsu :: dict where
  "ex_rec_setsuritsu =
     [(L_shutoku_nichiji, [0x31]), (L_shutoku_url, [0x61]), (L_meishou, [0x41]), (L_juusho, []),
      (L_setsuritsu, [0x32, 0x30, 0x30, 0x31])]"

definition ex_rec_daihyousha :: dict where
  "ex_rec_daihyousha =
     [(L_shutoku_nichiji, [0x31]), (L_shutoku_url, [0x62]), (L_meishou, [0x42]), (L_juusho, []),
      (L_daihyousha, [0x43])]"

subsection \<open>Pages of a site\<close>

text \<open>The list pages reachable from the start page by next-page links.\<close>

inductive_set reachable_pages :: "site \<Rightarrow> ustr \<Rightarrow> ustr set" for site :: site and list_url :: ustr where
  start: "list_url \<in> reachable_pages site list_url"
| follow: "u \<in> reachable_pages site list_url \<Longrightarrow> site u = Some (detail_urls, Some u') \<Longrightarrow>
           u' \<in> reachable_pages site list_url"

text \<open>The invariant of the crawl loop.\<close>

definition crawl_inv :: "crawl_state \<Rightarrow> bool" where
  "crawl_inv s \<longleftrightarrow> distinct (fetched s) \<and> set (fetched s) = seen_pages s \<and> distinct (all_urls s)"

text \<open>A site of two list pages that link to each other.\<close>

definition ex_page_a :: ustr where "ex_page_a = [0x61]"
definition ex_page_b :: ustr where "ex_page_b = [0x62]"

definition ex_site :: site where
  "ex_site u =
     (if u = ex_page_a then Some ([[0x31], [0x32]], Some ex_page_b)
      else if u = ex_page_b then Some ([[0x32], [0x33]], Some ex_page_a)
      else None)"

subsection \<open>Outcomes of a request\<close>

text \<open>
  A transient outcome: a 5xx status, or an exception other than an \<open>HTTPError\<close> with a
  status outside 500 to 599 (a network or transport error).
\<close>

fun transient :: "http_outcome \<Rightarrow> bool" where
  "transient (Response status text) \<longleftrightarrow> 500 \<le> status \<and> status < 600"
| "transient (Raises (HTTPError status)) \<longleftrightarrow> 500 \<le> status \<and> status < 600"
| "transient (Raises e) \<longleftrightarrow> True"

text \<open>
  The trace of \<open>k\<close> failed attempts: request \<open>i\<close>, then a sleep of
  \<open>RETRY_BACKOFF_SEC * (i + 1)\<close> seconds, for \<open>i\<close> from 0 to \<open>k - 1\<close>.
\<close>

fun retries :: "nat \<Rightarrow> event list" where
  "retries 0 = []"
| "retries (Suc k) = retries k @ [Request k, Sleep (RETRY_BACKOFF_SEC * (real k + 1))]"

text \<open>
  A server that answers 503 to the first two requests and 200 with a body to the third.
\<close>

definition ex_net_503_503_200 :: "nat \<Rightarrow> http_outcome" where
  "ex_net_503_503_200 attempt = (if attempt < 2 then Response 503 [] else Response 200 [0x3C, 0x70, 0x3E])"

subsection \<open>Values harvested for a key\<close>

text \<open>The values among the key/value pairs \<open>kvs\<close> that were harvested for the key \<open>k\<close>.\<close>

definition values_of :: "ustr \<Rightarrow> (ustr \<times> ustr) list \<Rightarrow> ustr list" where
  "values_of k kvs = map snd (filter (\<lambda>kv. fst kv = k) kvs)"

text \<open>
  \<open>v\<close> is the longest of the values \<open>vs\<close>, and the first of them with that length.
\<close>

definition first_longest :: "ustr \<Rightarrow> ustr list \<Rightarrow> bool" where
  "first_longest v vs \<longleftrightarrow>
     v \<in> set vs \<and> (\<forall>w \<in> set vs. length w \<le> length v) \<and>
     (\<forall>w \<in> set (takeWhile (\<lambda>w. w \<noteq> v) vs). length w < length v)"

text \<open>
  The tables that \<open>parse_company_table\<close> of \<open>dairitenhonpo\<close> scans: the loop over the
  tables stops after the first table that leaves both name and address present.
\<close>

fun scanned :: "honpo_table list \<Rightarrow> dict \<Rightarrow> honpo_table list" where
  "scanned [] result = []"
| "scanned (table # tables) result =
     (let result' = honpo_parse_rows table result
      in table # (if map_of result' L_meishou \<noteq> None \<and> map_of result' L_juusho \<noteq> None then []
                  else scanned tables result'))"

text \<open>The key/value pairs harvested from the rows scanned, in order.\<close>

definition honpo_harvested :: "honpo_soup \<Rightarrow> (ustr \<times> ustr) list" where
  "honpo_harvested soup = List.map_filter harvest (concat (scanned (honpo_tables soup) []))"

definition bosyuu_harvested :: "bosyuu_soup \<Rightarrow> (ustr \<times> ustr) list" where
  "bosyuu_harvested soup = List.map_filter bosyuu_harvest (concat (soup_tables soup))"

text \<open>
  Two documents in which the year of foundation (\<open>L_setsuritsu\<close>) stands in two tables,
  once as \<open>2001\<close> and once as \<open>2001-04\<close>: for \<open>dairitenhonpo\<close> the short value first, for
  \<open>dairitenbosyuu\<close> the long value first.
\<close>

definition ex_honpo_soup :: honpo_soup where
  "ex_honpo_soup =
     \<lparr>h2_h3_headings = [],
      all_tables =
        [[(Some L_kaishamei, Some [0x41]), (Some L_setsuritsu, Some [0x32, 0x30, 0x30, 0x31])],
         [(Some L_setsuritsu, Some [0x32, 0x30, 0x30, 0x31, 0x2D, 0x30, 0x34]),
          (Some L_shozaichi, Some [0x54])]]\<rparr>"

definition ex_bosyuu_soup :: bosyuu_soup where
  "ex_bosyuu_soup =
     \<lparr>soup_tables =
        [[[L_setsuritsu, [0x32, 0x30, 0x30, 0x31, 0x2D, 0x30, 0x34]]],
         [[L_setsuritsu, [0x32, 0x30, 0x30, 0x31]]]],
      soup_strings = [], soup_h1_h2_h3 = [], soup_p_li_div = [], soup_text = []\<rparr>"

text \<open>
  A section whose table gives the telephone number \<open>03\<close> and whose text has the labelled
  line \<open>TEL: 99\<close>, with the line pattern matching that line.
\<close>

definition ex_section :: section_node where
  "ex_section =
     \<lparr>sec_dt_dd = [], sec_th_td = [(Some L_denwa, Some [0x30, 0x33])],
      sec_text = [0x54, 0x45, 0x4C, 0x3A, 0x20, 0x39, 0x39], sec_strong = [], sec_p = []\<rparr>"

definition ex_patterns :: madoguti_patterns where
  "ex_patterns =
     \<lparr>colon_line = (\<lambda>line. if line = [0x54, 0x45, 0x4C, 0x3A, 0x20, 0x39, 0x39]
                               then Some ([0x54, 0x45, 0x4C], [0x39, 0x39]) else None),
      dash_line = (\<lambda>line. None), title_pat = (\<lambda>title. None), address_pat = (\<lambda>t. None)\<rparr>"

subsection \<open>Example worlds\<close>

text \<open>A world in which every request succeeds and the parser rejects every document.\<close>

definition ex_world_parser_raises :: "'soup world" where
  "ex_world_parser_raises =
     \<lparr>requests_get = (\<lambda>url attempt. Response 200 [0x3C, 0x70, 0x3E]),
      BeautifulSoup = (\<lambda>html. Inl (OtherException [])),
      now = (\<lambda>url. [0x31]), as_completed = (\<lambda>urls. urls), str_exn = (\<lambda>e. []),
      resp_url = (\<lambda>url. url)\<rparr>"

text \<open>
  A world for \<open>dairitenhonpo\<close>: the URL \<open>a\<close> is served and parses to the first example
  document, every other URL answers 404.
\<close>

definition ex_honpo_world :: "honpo_soup world" where
  "ex_honpo_world =
     \<lparr>requests_get = (\<lambda>url attempt. if url = [0x61] then Response 200 [0x78] else Response 404 []),
      BeautifulSoup = (\<lambda>html. Inr ex_honpo_soup),
      now = (\<lambda>url. [0x31]), as_completed = (\<lambda>urls. urls), str_exn = (\<lambda>e. []),
      resp_url = (\<lambda>url. url)\<rparr>"

text \<open>Patterns that match nothing, and a document without any content.\<close>

definition ex_no_patterns :: patterns where
  "ex_no_patterns =
     \<lparr>heading_pat = (\<lambda>t. None), ADDRESS_PAT = (\<lambda>t. None), PHONE_PAT = (\<lambda>t. None),
      EMAIL_PAT = (\<lambda>t. None)\<rparr>"

definition ex_empty_soup :: madoguti_soup where
  "ex_empty_soup =
     \<lparr>company_sections = [], soup_li_span_a = [], soup_h1_h2 = [], soup_title = None,
      soup_full_text = [], soup_links = []\<rparr>"

text \<open>
  A world for \<open>franchise_no_madoguti\<close>: every request succeeds and every document parses
  to the empty document.
\<close>

definition ex_madoguti_world :: "madoguti_soup world" where
  "ex_madoguti_world =
     \<lparr>requests_get = (\<lambda>url attempt. Response 200 [0x3C, 0x70, 0x3E]),
      BeautifulSoup = (\<lambda>html. Inr ex_empty_soup),
      now = (\<lambda>url. [0x31]), as_completed = (\<lambda>urls. urls), str_exn = (\<lambda>e. []),
      resp_url = (\<lambda>url. url)\<rparr>"

text \<open>An input file with one row, the URL \<open>http://a\<close>.\<close>

definition ex_rows :: input_csv where
  "ex_rows = Rows [[[0x68, 0x74, 0x74, 0x70, 0x3A, 0x2F, 0x2F, 0x61]]]"

section \<open>Properties\<close>

subsection \<open>The column loop\<close>

lemma first_pos_Cons:
  "first_pos a (k # ks) = (if a = k then 0 else Suc (first_pos a ks))"
  by (simp add: first_pos_def)

lemma add_unseen_keys_props:
  "\<exists>rest. add_unseen_keys ks (cols, set cols) = (cols @ rest, set (cols @ rest)) \<and>
          set rest = set ks - set cols \<and> distinct rest \<and> in_first_seen_order rest ks"
proof (induction ks arbitrary: cols)
  case Nil
  show ?case by (simp add: in_first_seen_order_def)
next
  case (Cons k ks)
  show ?case
  proof (cases "k \<in> set cols")
    case True
    from Cons.IH [of cols] obtain rest where
      r: "add_unseen_keys ks (cols, set cols) = (cols @ rest, set (cols @ rest))"
         "set rest = set ks - set cols" "distinct rest" "in_first_seen_order rest ks"
      by blast
    have "in_first_seen_order rest (k # ks)"
      unfolding in_first_seen_order_def
    proof (rule sorted_wrt_mono_rel [OF _ r(4) [unfolded in_first_seen_order_def]])
      fix a b
      assume "a \<in> set rest" "b \<in> set rest" "first_pos a ks < first_pos b ks"
      with r(2) True show "first_pos a (k # ks) < first_pos b (k # ks)"
        by (auto simp: first_pos_Cons)
    qed
    with r True show ?thesis by auto
  next
    case False
    have eq: "insert k (set cols) = set (cols @ [k])" by simp
    from Cons.IH [of "cols @ [k]"] obtain rest where
      r: "add_unseen_keys ks (cols @ [k], set (cols @ [k])) = ((cols @ [k]) @ rest, set ((cols @ [k]) @ rest))"
         "set rest = set ks - set (cols @ [k])" "distinct rest" "in_first_seen_order rest ks"
      by blast
    have ord: "in_first_seen_order (k # rest) (k # ks)"
      unfolding in_first_seen_order_def
    proof (simp, intro conjI ballI)
      fix b assume "b \<in> set rest"
      with r(2) have "b \<noteq> k" by auto
      then show "first_pos k (k # ks) < first_pos b (k # ks)"
        by (simp add: first_pos_Cons)
    next
      show "sorted_wrt (\<lambda>a b. first_pos a (k # ks) < first_pos b (k # ks)) rest"
      proof (rule sorted_wrt_mono_rel [OF _ r(4) [unfolded in_first_seen_order_def]])
        fix a b
        assume "a \<in> set rest" "b \<in> set rest" "first_pos a ks < first_pos b ks"
        with r(2) show "first_pos a (k # ks) < first_pos b (k # ks)"
          by (auto simp: first_pos_Cons)
      qed
    qed
    have "add_unseen_keys (k # ks) (cols, set cols) = (cols @ (k # rest), set (cols @ (k # rest)))"
      using False r(1) by (simp only: add_unseen_keys.simps eq if_True) simp
    moreover have "set (k # rest) = set (k # ks) - set cols"
      using r(2) False by auto
    moreover have "distinct (k # rest)"
      using r(2,3) by auto
    ultimately show ?thesis using ord by blast
  qed
qed

lemma bosyuu_unify_loop_all_keys:
  "bosyuu_unify_loop records st = add_unseen_keys (all_keys records) st"
proof (induction records arbitrary: st)
  case Nil
  show ?case by (cases st) (simp add: all_keys_def)
next
  case (Cons r records)
  have app: "\<And>xs ys st. add_unseen_keys (xs @ ys) st = add_unseen_keys ys (add_unseen_keys xs st)"
  proof -
    fix xs ys st
    show "add_unseen_keys (xs @ ys) st = add_unseen_keys ys (add_unseen_keys xs st)"
      by (induction xs st rule: add_unseen_keys.induct) auto
  qed
  show ?case
  proof (cases "r = []")
    case True
    with Cons show ?thesis by (simp add: all_keys_def)
  next
    case False
    with Cons show ?thesis by (simp add: all_keys_def app)
  qed
qed

lemma honpo_header_loop_all_keys:
  "honpo_header_loop records st = add_unseen_keys (all_keys records) st"
proof (induction records arbitrary: st)
  case Nil
  show ?case by (cases st) (simp add: all_keys_def)
next
  case (Cons r records)
  have app: "\<And>xs ys st. add_unseen_keys (xs @ ys) st = add_unseen_keys ys (add_unseen_keys xs st)"
  proof -
    fix xs ys st
    show "add_unseen_keys (xs @ ys) st = add_unseen_keys ys (add_unseen_keys xs st)"
      by (induction xs st rule: add_unseen_keys.induct) auto
  qed
  from Cons show ?case by (simp add: all_keys_def app)
qed

lemma length_REQUIRED_COLUMNS: "length REQUIRED_COLUMNS = 4"
  by (simp add: REQUIRED_COLUMNS_def)

lemma add_unseen_keys_schema:
  assumes "cols = fst (add_unseen_keys (all_keys records) (REQUIRED_COLUMNS, set REQUIRED_COLUMNS))"
  shows "take 4 cols = REQUIRED_COLUMNS \<and> distinct (drop 4 cols) \<and>
         set (drop 4 cols) = set (all_keys records) - set REQUIRED_COLUMNS \<and>
         in_first_seen_order (drop 4 cols) (all_keys records)"
proof -
  from add_unseen_keys_props [of "all_keys records" REQUIRED_COLUMNS] obtain rest where
    r: "add_unseen_keys (all_keys records) (REQUIRED_COLUMNS, set REQUIRED_COLUMNS)
          = (REQUIRED_COLUMNS @ rest, set (REQUIRED_COLUMNS @ rest))"
       "set rest = set (all_keys records) - set REQUIRED_COLUMNS" "distinct rest"
       "in_first_seen_order rest (all_keys records)"
    by blast
  have "cols = REQUIRED_COLUMNS @ rest" using assms r(1) by simp
  then have "take 4 cols = REQUIRED_COLUMNS" "drop 4 cols = rest"
    by (simp_all add: length_REQUIRED_COLUMNS)
  with r show ?thesis by simp
qed

lemma DataFrame_columns_props:
  "distinct (DataFrame_columns rows) \<and> set (DataFrame_columns rows) = set (all_keys rows)"
proof -
  from add_unseen_keys_props [of "all_keys rows" "[]"] obtain rest where
    "add_unseen_keys (all_keys rows) ([], {}) = (rest, set rest)"
    "set rest = set (all_keys rows)" "distinct rest"
    by auto
  then show ?thesis by (simp add: DataFrame_columns_def)
qed

lemma ensure_columns_props:
  "distinct columns \<Longrightarrow>
   distinct (ensure_columns cols columns) \<and> set (ensure_columns cols columns) = set columns \<union> set cols"
  by (induction cols arbitrary: columns) auto

lemma madoguti_ordered_props:
  "take 4 (madoguti_ordered rows) = REQUIRED_COLUMNS \<and>
   distinct (drop 4 (madoguti_ordered rows)) \<and>
   set (drop 4 (madoguti_ordered rows)) = set (all_keys rows) - set REQUIRED_COLUMNS \<and>
   sorted (drop 4 (madoguti_ordered rows))"
proof -
  let ?columns = "ensure_columns REQUIRED_COLUMNS (DataFrame_columns rows)"
  let ?other = "filter (\<lambda>c. c \<notin> set REQUIRED_COLUMNS) ?columns"
  have c: "distinct ?columns" "set ?columns = set (all_keys rows) \<union> set REQUIRED_COLUMNS"
    using ensure_columns_props [of "DataFrame_columns rows" REQUIRED_COLUMNS]
          DataFrame_columns_props [of rows] by simp_all
  have m: "madoguti_ordered rows = REQUIRED_COLUMNS @ sort ?other"
    by (simp add: madoguti_ordered_def Let_def)
  have "drop 4 (madoguti_ordered rows) = sort ?other" "take 4 (madoguti_ordered rows) = REQUIRED_COLUMNS"
    unfolding m by (simp_all add: length_REQUIRED_COLUMNS)
  moreover have "distinct (sort ?other)" using c(1) by simp
  moreover have "set (sort ?other) = set (all_keys rows) - set REQUIRED_COLUMNS"
    using c(2) by auto
  ultimately show ?thesis by simp
qed

lemma madoguti_cell_get:
  "row \<in> set rows \<Longrightarrow>
   (case madoguti_cell rows row c of None \<Rightarrow> [] | Some v \<Rightarrow> v) = dict_get row c []"
proof (cases "c \<in> set (DataFrame_columns rows)")
  case True
  then show ?thesis by (simp add: madoguti_cell_def dict_get_def)
next
  case False
  assume "row \<in> set rows"
  with False have "c \<notin> fst ` set row"
    using DataFrame_columns_props [of rows] by (auto simp: all_keys_def)
  then have "map_of row c = None" by (simp add: map_of_eq_None_iff)
  with False show ?thesis by (simp add: madoguti_cell_def dict_get_def)
qed

lemma to_csv_to_dataframe:
  "to_csv (madoguti_to_dataframe rows) =
     madoguti_ordered rows # map (DictWriter_row (madoguti_ordered rows)) rows"
  by (simp add: to_csv_def madoguti_to_dataframe_def Let_def DictWriter_row_def madoguti_cell_get
           cong: map_cong)

subsection \<open>The column schema\<close>

lemmas label_defs = L_shutoku_nichiji_def L_shutoku_url_def L_meishou_def L_juusho_def L_TEL_def
  L_denwa_def L_URL_def L_setsuritsu_def L_daihyousha_def

lemma ex_unify: "bosyuu_unify_columns [ex_rec_setsuritsu, ex_rec_daihyousha] = REQUIRED_COLUMNS @ [L_setsuritsu, L_daihyousha]"
  by (simp add: bosyuu_unify_columns_def ex_rec_setsuritsu_def ex_rec_daihyousha_def REQUIRED_COLUMNS_def label_defs)

lemma ex_unify': "bosyuu_unify_columns [ex_rec_daihyousha, ex_rec_setsuritsu] = REQUIRED_COLUMNS @ [L_daihyousha, L_setsuritsu]"
  by (simp add: bosyuu_unify_columns_def ex_rec_setsuritsu_def ex_rec_daihyousha_def REQUIRED_COLUMNS_def label_defs)

lemma ex_ordered: "madoguti_ordered [ex_rec_setsuritsu, ex_rec_daihyousha] = REQUIRED_COLUMNS @ [L_daihyousha, L_setsuritsu]"
  by (simp add: madoguti_ordered_def DataFrame_columns_def all_keys_def ex_rec_setsuritsu_def ex_rec_daihyousha_def REQUIRED_COLUMNS_def label_defs)

lemma ex_keys: "all_keys [ex_rec_setsuritsu, ex_rec_daihyousha] = REQUIRED_COLUMNS @ [L_setsuritsu] @ REQUIRED_COLUMNS @ [L_daihyousha]"
  by (simp add: all_keys_def ex_rec_setsuritsu_def ex_rec_daihyousha_def REQUIRED_COLUMNS_def)

text \<open>
  C5 (amended). For every list of records the schema starts with the four required
  columns, followed by every other key of the records exactly once. In \<open>unify_columns\<close>
  (\<open>dairitenbosyuu\<close>) and in the header of \<open>write_csv\<close> (\<open>dairitenhonpo\<close>) these keys
  stand in order of first occurrence; in \<open>to_dataframe\<close> (\<open>franchise_no_madoguti\<close>) they
  stand in ascending order. Every row written is the projection of its record onto the
  schema: the record's value, or the empty string for an absent key.
\<close>

theorem column_schema:
  "first_seen_schema (bosyuu_unify_columns records) records \<and>
   first_seen_schema (honpo_header records) records \<and>
   sorted_schema (madoguti_ordered records) records \<and>
   (records \<noteq> [] \<longrightarrow>
      bosyuu_save_csv records =
        Some (bosyuu_unify_columns records # map (projection (bosyuu_unify_columns records)) records)) \<and>
   honpo_write_csv records =
     honpo_header records # map (projection (honpo_header records)) records \<and>
   to_csv (madoguti_to_dataframe records) =
     madoguti_ordered records # map (projection (madoguti_ordered records)) records"
proof -
  have proj: "DictWriter_row = projection"
    by (intro ext) (simp add: DictWriter_row_def projection_def dict_get_def)
  have "first_seen_schema (bosyuu_unify_columns records) records"
    unfolding first_seen_schema_def
    by (rule add_unseen_keys_schema) (simp add: bosyuu_unify_columns_def bosyuu_unify_loop_all_keys)
  moreover have "first_seen_schema (honpo_header records) records"
    unfolding first_seen_schema_def
    by (rule add_unseen_keys_schema) (simp add: honpo_header_def honpo_header_loop_all_keys)
  moreover have "sorted_schema (madoguti_ordered records) records"
    unfolding sorted_schema_def by (rule madoguti_ordered_props)
  moreover have "records \<noteq> [] \<longrightarrow>
      bosyuu_save_csv records =
        Some (bosyuu_unify_columns records # map (projection (bosyuu_unify_columns records)) records)"
    by (simp add: bosyuu_save_csv_def Let_def proj)
  moreover have "honpo_write_csv records =
     honpo_header records # map (projection (honpo_header records)) records"
    by (simp add: honpo_write_csv_def Let_def proj)
  moreover have "to_csv (madoguti_to_dataframe records) =
     madoguti_ordered records # map (projection (madoguti_ordered records)) records"
    by (simp add: to_csv_to_dataframe proj)
  ultimately show ?thesis by blast
qed

text \<open>
  C5, witness: the two example records; the year of foundation is seen first.
\<close>

theorem column_schema_witness:
  "[ex_rec_setsuritsu, ex_rec_daihyousha] \<noteq> [] \<and>
   bosyuu_unify_columns [ex_rec_setsuritsu, ex_rec_daihyousha] = REQUIRED_COLUMNS @ [L_setsuritsu, L_daihyousha] \<and>
   first_seen_schema (REQUIRED_COLUMNS @ [L_setsuritsu, L_daihyousha]) [ex_rec_setsuritsu, ex_rec_daihyousha] \<and>
   bosyuu_save_csv [ex_rec_setsuritsu, ex_rec_daihyousha] =
     Some [REQUIRED_COLUMNS @ [L_setsuritsu, L_daihyousha],
           [[0x31], [0x61], [0x41], [], [0x32, 0x30, 0x30, 0x31], []],
           [[0x31], [0x62], [0x42], [], [], [0x43]]]"
proof -
  have p1: "projection (REQUIRED_COLUMNS @ [L_setsuritsu, L_daihyousha]) ex_rec_setsuritsu
             = [[0x31], [0x61], [0x41], [], [0x32, 0x30, 0x30, 0x31], []]"
    by (simp add: projection_def ex_rec_setsuritsu_def REQUIRED_COLUMNS_def label_defs)
  have p2: "projection (REQUIRED_COLUMNS @ [L_setsuritsu, L_daihyousha]) ex_rec_daihyousha
             = [[0x31], [0x62], [0x42], [], [], [0x43]]"
    by (simp add: projection_def ex_rec_daihyousha_def REQUIRED_COLUMNS_def label_defs)
  from column_schema [of "[ex_rec_setsuritsu, ex_rec_daihyousha]"] show ?thesis
    by (simp add: ex_unify p1 p2)
qed

text \<open>
  C5, counterexample to the claim as stated (other keys ordered by first occurrence, for
  every script): \<open>to_dataframe\<close> puts the representative before the year of foundation
  although the year of foundation occurs first in the records.
\<close>

theorem to_dataframe_not_first_seen:
  "madoguti_ordered [ex_rec_setsuritsu, ex_rec_daihyousha] = REQUIRED_COLUMNS @ [L_daihyousha, L_setsuritsu] \<and>
   first_pos L_setsuritsu (all_keys [ex_rec_setsuritsu, ex_rec_daihyousha]) = 4 \<and>
   first_pos L_daihyousha (all_keys [ex_rec_setsuritsu, ex_rec_daihyousha]) = 9 \<and>
   \<not> in_first_seen_order (drop 4 (madoguti_ordered [ex_rec_setsuritsu, ex_rec_daihyousha]))
        (all_keys [ex_rec_setsuritsu, ex_rec_daihyousha])"
  by (simp add: ex_ordered ex_keys in_first_seen_order_def first_pos_def REQUIRED_COLUMNS_def label_defs)

text \<open>
  C6 (amended). Permuting the list of records leaves the set of columns of
  \<open>unify_columns\<close> and its required prefix unchanged, and leaves the whole column sequence
  of \<open>to_dataframe\<close> unchanged (its other columns are sorted).
\<close>

theorem schema_permutation:
  assumes "mset records = mset records'"
  shows "set (bosyuu_unify_columns records) = set (bosyuu_unify_columns records') \<and>
         take 4 (bosyuu_unify_columns records) = REQUIRED_COLUMNS \<and>
         take 4 (bosyuu_unify_columns records') = REQUIRED_COLUMNS \<and>
         madoguti_ordered records = madoguti_ordered records'"
proof -
  have "set records = set records'" using assms by (rule mset_eq_setD)
  then have keys: "set (all_keys records) = set (all_keys records')"
    by (simp add: all_keys_def)
  have split: "\<And>cols :: ustr list. cols = take 4 cols @ drop 4 cols" by simp
  have b: "first_seen_schema (bosyuu_unify_columns records) records"
          "first_seen_schema (bosyuu_unify_columns records') records'"
    unfolding first_seen_schema_def
    by (rule add_unseen_keys_schema, simp add: bosyuu_unify_columns_def bosyuu_unify_loop_all_keys)+
  have "set (bosyuu_unify_columns records)
          = set REQUIRED_COLUMNS \<union> (set (all_keys records) - set REQUIRED_COLUMNS)"
    using b(1) split [of "bosyuu_unify_columns records"]
    unfolding first_seen_schema_def by (metis set_append)
  moreover have "set (bosyuu_unify_columns records')
          = set REQUIRED_COLUMNS \<union> (set (all_keys records') - set REQUIRED_COLUMNS)"
    using b(2) split [of "bosyuu_unify_columns records'"]
    unfolding first_seen_schema_def by (metis set_append)
  ultimately have s: "set (bosyuu_unify_columns records) = set (bosyuu_unify_columns records')"
    using keys by simp
  have m: "drop 4 (madoguti_ordered records) = drop 4 (madoguti_ordered records')"
    using madoguti_ordered_props [of records] madoguti_ordered_props [of records'] keys
    by (intro sorted_distinct_set_unique) simp_all
  have "madoguti_ordered records = madoguti_ordered records'"
    using split [of "madoguti_ordered records"] split [of "madoguti_ordered records'"] m
          madoguti_ordered_props [of records] madoguti_ordered_props [of records']
    by metis
  with s b show ?thesis by (simp add: first_seen_schema_def)
qed

text \<open>C6, witness: the two example records in both orders.\<close>

theorem schema_permutation_witness:
  "mset [ex_rec_setsuritsu, ex_rec_daihyousha] = mset [ex_rec_daihyousha, ex_rec_setsuritsu] \<and>
   set (bosyuu_unify_columns [ex_rec_setsuritsu, ex_rec_daihyousha])
     = set (bosyuu_unify_columns [ex_rec_daihyousha, ex_rec_setsuritsu]) \<and>
   madoguti_ordered [ex_rec_setsuritsu, ex_rec_daihyousha] = madoguti_ordered [ex_rec_daihyousha, ex_rec_setsuritsu]"
proof -
  have h: "mset [ex_rec_setsuritsu, ex_rec_daihyousha] = mset [ex_rec_daihyousha, ex_rec_setsuritsu]"
    by (simp add: add.commute)
  from schema_permutation [OF h] h show ?thesis by simp
qed

text \<open>
  C6, counterexample to the claim as stated: \<open>unify_columns\<close> lists the other columns in
  order of first occurrence, so swapping two records changes the column sequence.
\<close>

theorem unify_columns_order_depends:
  "bosyuu_unify_columns [ex_rec_setsuritsu, ex_rec_daihyousha] \<noteq> bosyuu_unify_columns [ex_rec_daihyousha, ex_rec_setsuritsu]"
  by (simp add: ex_unify ex_unify' label_defs)

subsection \<open>repre: the table parser always defines TEL\<close>

lemma repre_parse_rows_no_TEL:
  "\<forall>cells \<in> set trs. 2 \<le> length cells \<longrightarrow> repre_norm_key repre_key_map (cells ! 0) \<noteq> L_TEL \<Longrightarrow>
   map_of (repre_parse_rows trs data) L_TEL = map_of data L_TEL"
proof (induction trs arbitrary: data)
  case Nil
  then show ?case by simp
next
  case (Cons cells trs)
  have rest: "\<forall>cells \<in> set trs. 2 \<le> length cells \<longrightarrow>
                repre_norm_key repre_key_map (cells ! 0) \<noteq> L_TEL"
    using Cons.prems by simp
  show ?case
  proof (cases cells)
    case Nil
    with Cons.IH [OF rest] show ?thesis by simp
  next
    case outer: (Cons key more)
    show ?thesis
    proof (cases more)
      case Nil
      with outer Cons.IH [OF rest] show ?thesis by simp
    next
      case inner: (Cons val more')
      have "repre_norm_key repre_key_map key \<noteq> L_TEL"
        using Cons.prems outer inner by simp
      then show ?thesis
        using outer inner Cons.IH [OF rest] by (simp add: update_conv')
    qed
  qed
qed

text \<open>
  C9. Whatever the table, the dictionary returned by \<open>parse_company_table\<close> of
  \<open>repre/scrape.py\<close> has the key \<open>"TEL"\<close>; when no row of two or more cells has a label that
  normalises to \<open>"TEL"\<close>, its value is the empty string.
\<close>

theorem repre_parse_company_table_TEL:
  "(\<exists>v. map_of (repre_parse_company_table table) L_TEL = Some v) \<and>
   ((\<forall>cells \<in> set table. 2 \<le> length cells \<longrightarrow>
        repre_norm_key repre_key_map (cells ! 0) \<noteq> L_TEL) \<longrightarrow>
    map_of (repre_parse_company_table table) L_TEL = Some [])"
proof
  show "\<exists>v. map_of (repre_parse_company_table table) L_TEL = Some v"
    by (cases "map_of (repre_parse_rows table []) L_TEL")
       (simp_all add: repre_parse_company_table_def Let_def update_conv')
next
  show "(\<forall>cells \<in> set table. 2 \<le> length cells \<longrightarrow>
           repre_norm_key repre_key_map (cells ! 0) \<noteq> L_TEL) \<longrightarrow>
        map_of (repre_parse_company_table table) L_TEL = Some []"
  proof
    assume "\<forall>cells \<in> set table. 2 \<le> length cells \<longrightarrow>
              repre_norm_key repre_key_map (cells ! 0) \<noteq> L_TEL"
    then have "map_of (repre_parse_rows table []) L_TEL = None"
      using repre_parse_rows_no_TEL [of table "[]"] by simp
    then show "map_of (repre_parse_company_table table) L_TEL = Some []"
      by (simp add: repre_parse_company_table_def Let_def update_conv')
  qed
qed

text \<open>
  A table with a name row, a one-cell row and no telephone row: the hypothesis holds and
  \<open>"TEL"\<close> is present with the empty string.
\<close>

theorem repre_parse_company_table_TEL_witness:
  "repre_norm_key repre_key_map L_meishou \<noteq> L_TEL \<and>
   map_of (repre_parse_company_table [[L_meishou, [0x41, 0x20, 0x20, 0x42]], [L_juusho]]) L_TEL
     = Some []"
proof -
  have key: "repre_norm_key repre_key_map L_meishou \<noteq> L_TEL"
    by (simp add: repre_key_map_def L_meishou_def L_TEL_def)
  then have "\<forall>cells \<in> set [[L_meishou, [0x41, 0x20, 0x20, 0x42]], [L_juusho]].
          2 \<le> length cells \<longrightarrow> repre_norm_key repre_key_map (cells ! 0) \<noteq> L_TEL"
    by simp
  with repre_parse_company_table_TEL
         [of "[[L_meishou, [0x41, 0x20, 0x20, 0x42]], [L_juusho]]"] key
  show ?thesis by blast
qed

subsection \<open>tabelog: the list-page crawler\<close>

lemma distinct_append_new: "distinct all \<Longrightarrow> distinct (append_new us all)"
  by (induction us arbitrary: all) auto

lemma loop_body_inv:
  assumes "crawl_inv s" "loop_condition s"
  shows "case loop_body site s of Inl s' \<Rightarrow> crawl_inv s' | Inr s' \<Rightarrow> crawl_inv s'"
  using assms
  by (auto simp: crawl_inv_def loop_condition_def loop_body_def Let_def distinct_append_new
           split: option.splits prod.splits)

lemma crawl_loop_inv: "crawl_inv s \<Longrightarrow> crawl_inv (state_of (crawl_loop fuel site s))"
proof (induction fuel arbitrary: s)
  case 0
  then show ?case by simp
next
  case (Suc fuel)
  show ?case
  proof (cases "loop_condition s")
    case False
    with Suc.prems show ?thesis by simp
  next
    case True
    show ?thesis
    proof (cases "loop_body site s")
      case (Inl s')
      with loop_body_inv [OF Suc.prems True, of site] True show ?thesis by simp
    next
      case (Inr s')
      with loop_body_inv [OF Suc.prems True, of site] have "crawl_inv s'" by simp
      from Suc.IH [OF this] True Inr show ?thesis by simp
    qed
  qed
qed

lemma crawl_loop_terminates:
  assumes fin: "finite R"
    and closed: "\<And>u ds u'. u \<in> R \<Longrightarrow> site u = Some (ds, Some u') \<Longrightarrow> u' \<in> R"
  shows "(\<And>u. next_url s = Some u \<Longrightarrow> u \<in> R) \<Longrightarrow> card (R - seen_pages s) \<le> fuel \<Longrightarrow>
         \<not> is_Running (crawl_loop fuel site s)"
proof (induction fuel arbitrary: s)
  case 0
  then have "R - seen_pages s = {}" using fin by simp
  with "0.prems"(1) have "\<not> loop_condition s"
    by (auto simp: loop_condition_def split: option.splits)
  then show ?case by simp
next
  case (Suc fuel)
  show ?case
  proof (cases "loop_condition s")
    case False
    then show ?thesis by simp
  next
    case True
    then obtain u where u: "next_url s = Some u" "u \<notin> seen_pages s"
      by (auto simp: loop_condition_def split: option.splits)
    with Suc.prems(1) have uR: "u \<in> R" by simp
    show ?thesis
    proof (cases "site u")
      case None
      with u True show ?thesis by (simp add: loop_body_def)
    next
      case (Some page)
      obtain ds nxt where page: "page = (ds, nxt)" by (cases page)
      let ?s' = "s\<lparr>seen_pages := insert u (seen_pages s), fetched := fetched s @ [u],
                    all_urls := append_new ds (all_urls s), next_url := nxt\<rparr>"
      have body: "loop_body site s = Inr ?s'"
        using u Some page by (simp add: loop_body_def)
      have eq: "R - seen_pages ?s' = (R - seen_pages s) - {u}" by auto
      have "u \<in> R - seen_pages s" using uR u by simp
      moreover have "finite (R - seen_pages s)" using fin by simp
      ultimately have "card ((R - seen_pages s) - {u}) < card (R - seen_pages s)"
        by (rule card_Diff1_less [rotated])
      then have "card (R - seen_pages ?s') < card (R - seen_pages s)"
        by (simp only: eq)
      with Suc.prems(2) have c: "card (R - seen_pages ?s') \<le> fuel" by simp
      have n: "\<And>v. next_url ?s' = Some v \<Longrightarrow> v \<in> R"
        using closed [OF uR] Some page by simp
      from Suc.IH [OF n c] True body show ?thesis by simp
    qed
  qed
qed

lemma ex_reachable: "reachable_pages ex_site ex_page_a \<subseteq> {ex_page_a, ex_page_b}"
proof
  fix u assume "u \<in> reachable_pages ex_site ex_page_a"
  then show "u \<in> {ex_page_a, ex_page_b}"
    by induction (auto simp: ex_site_def split: if_splits)
qed

lemma ex_crawl:
  "crawl_all_details 2 ex_site ex_page_a =
     Returned \<lparr>all_urls = [[0x31], [0x32], [0x33]], seen_pages = {ex_page_b, ex_page_a},
               next_url = Some ex_page_a, fetched = [ex_page_a, ex_page_b]\<rparr>"
  by (simp add: crawl_all_details_def loop_condition_def loop_body_def ex_site_def
        ex_page_a_def ex_page_b_def numeral_2_eq_2)

text \<open>
  C10. During a run of \<open>crawl_all_details\<close>, after any number of passes, the URLs passed
  to \<open>fetch_html\<close> are pairwise distinct and are exactly the pages in \<open>seen_pages\<close>, and
  the list of detail URLs has no duplicates. When the set of list pages reachable from
  the start page is finite, the loop has ended (by returning, or by an exception of
  \<open>fetch_html\<close>) after at most as many passes as there are reachable pages.
\<close>

theorem crawl_all_details_pages:
  "distinct (fetched (state_of (crawl_all_details fuel site list_url))) \<and>
   set (fetched (state_of (crawl_all_details fuel site list_url)))
     = seen_pages (state_of (crawl_all_details fuel site list_url)) \<and>
   distinct (all_urls (state_of (crawl_all_details fuel site list_url))) \<and>
   (finite (reachable_pages site list_url) \<longrightarrow> card (reachable_pages site list_url) \<le> fuel \<longrightarrow>
      \<not> is_Running (crawl_all_details fuel site list_url))"
proof -
  let ?s0 = "\<lparr>all_urls = [], seen_pages = {}, next_url = Some list_url, fetched = []\<rparr>"
  have "crawl_inv ?s0" by (simp add: crawl_inv_def)
  then have "crawl_inv (state_of (crawl_loop fuel site ?s0))" by (rule crawl_loop_inv)
  then have inv: "crawl_inv (state_of (crawl_all_details fuel site list_url))"
    by (simp add: crawl_all_details_def)
  have "\<not> is_Running (crawl_all_details fuel site list_url)"
    if fin: "finite (reachable_pages site list_url)"
      and le: "card (reachable_pages site list_url) \<le> fuel"
  proof -
    have "\<not> is_Running (crawl_loop fuel site ?s0)"
    proof (rule crawl_loop_terminates [OF fin])
      show "\<And>u ds u'. u \<in> reachable_pages site list_url \<Longrightarrow> site u = Some (ds, Some u') \<Longrightarrow>
              u' \<in> reachable_pages site list_url"
        by (rule reachable_pages.follow)
      show "\<And>u. next_url ?s0 = Some u \<Longrightarrow> u \<in> reachable_pages site list_url"
        by (simp add: reachable_pages.start)
      show "card (reachable_pages site list_url - seen_pages ?s0) \<le> fuel"
        using le by simp
    qed
    then show ?thesis by (simp add: crawl_all_details_def)
  qed
  with inv show ?thesis by (simp add: crawl_inv_def)
qed

text \<open>
  C10, witness: on the site of two pages that link to each other the crawl returns after
  two passes, having fetched each page once.
\<close>

theorem crawl_all_details_pages_witness:
  "finite (reachable_pages ex_site ex_page_a) \<and> card (reachable_pages ex_site ex_page_a) \<le> 2 \<and>
   crawl_all_details 2 ex_site ex_page_a =
     Returned \<lparr>all_urls = [[0x31], [0x32], [0x33]], seen_pages = {ex_page_b, ex_page_a},
               next_url = Some ex_page_a, fetched = [ex_page_a, ex_page_b]\<rparr> \<and>
   \<not> is_Running (crawl_all_details 2 ex_site ex_page_a)"
proof -
  have fin: "finite (reachable_pages ex_site ex_page_a)"
    using ex_reachable by (rule finite_subset) simp
  have "card (reachable_pages ex_site ex_page_a) \<le> card {ex_page_a, ex_page_b}"
    using ex_reachable by (intro card_mono) simp_all
  also have "\<dots> \<le> 2" by (simp add: card_insert_if)
  finally have le: "card (reachable_pages ex_site ex_page_a) \<le> 2" .
  from crawl_all_details_pages [of 2 ex_site ex_page_a] fin le ex_crawl
  show ?thesis by blast
qed

subsection \<open>Fetching and retrying\<close>

lemma try_attempt_transient: "transient got \<Longrightarrow> \<exists>r. try_attempt got = Retry r \<and> fst r = None"
proof (cases got)
  case (Response status body)
  assume "transient got"
  with Response show ?thesis
    by (simp add: try_attempt_def raise_for_status_def on_HTTPError_def)
next
  case (Raises e)
  assume "transient got"
  with Raises show ?thesis
    by (cases e) (simp_all add: try_attempt_def on_HTTPError_def on_Exception_def)
qed

lemma fetch_html_loop_skip:
  assumes "\<forall>i<k. transient (net i)" and "k \<le> RETRY_COUNT"
  shows "j \<le> k \<Longrightarrow>
         fetch_html_loop (n + (k - j)) j net (retries j) = fetch_html_loop n k net (retries k)"
proof (induction "k - j" arbitrary: j)
  case 0
  then show ?case by simp
next
  case (Suc d)
  then have j: "j < k" "d = k - Suc j" "Suc j \<le> k" by simp_all
  with assms obtain r where r: "try_attempt (net j) = Retry r" 
    using try_attempt_transient by blast
  have lt: "j < RETRY_COUNT" using j assms(2) by simp
  have "n + (k - j) = Suc (n + (k - Suc j))" using j by simp
  then have "fetch_html_loop (n + (k - j)) j net (retries j)
         = fetch_html_loop (n + (k - Suc j)) (Suc j) net (retries (Suc j))"
    using r lt by (simp add: Let_def)
  also have "\<dots> = fetch_html_loop n k net (retries k)"
    using Suc.hyps(1) [OF j(2) j(3)] .
  finally show ?case .
qed

lemma honpo_fetch_html_at:
  assumes "\<forall>i<k. transient (net i)" and "k \<le> RETRY_COUNT"
  shows "honpo_fetch_html net = fetch_html_loop (Suc (RETRY_COUNT - k)) k net (retries k)"
proof -
  have "RETRY_COUNT + 1 = Suc (RETRY_COUNT - k) + (k - 0)" using assms(2) by simp
  then have "honpo_fetch_html net = fetch_html_loop (Suc (RETRY_COUNT - k) + (k - 0)) 0 net (retries 0)"
    by (simp add: honpo_fetch_html_def del: fetch_html_loop.simps)
  also have "\<dots> = fetch_html_loop (Suc (RETRY_COUNT - k)) k net (retries k)"
    using fetch_html_loop_skip [OF assms, of 0 "Suc (RETRY_COUNT - k)"]
    by (simp del: fetch_html_loop.simps)
  finally show ?thesis .
qed

text \<open>
  C2 (amended). \<open>fetch_html\<close> of \<open>dairitenhonpo\<close>, when the attempts before attempt \<open>k\<close>
  (at most \<open>RETRY_COUNT\<close>) ended in a 5xx status or an exception: a 4xx response at attempt
  \<open>k\<close> is returned as a failure at once, with no request after it; a 2xx response at
  attempt \<open>k\<close> returns the decoded body; and when attempt \<open>RETRY_COUNT\<close> fails in the same
  way too, a failure is returned after \<open>RETRY_COUNT + 1\<close> requests. Before each retry the
  function sleeps \<open>RETRY_BACKOFF_SEC * (attempt + 1)\<close> seconds. \<open>fetch\<close> of \<open>dairitenbosyuu\<close>
  makes one request and has no retry: it returns the body for status 200 only, \<open>None\<close>
  for any other status and for a \<open>RequestException\<close>.
\<close>

theorem fetch_outcomes:
  assumes "\<forall>i<k. transient (net i)" and "k \<le> RETRY_COUNT"
  shows "(net k = Response status text \<and> 400 \<le> status \<and> status < 500 \<longrightarrow>
            honpo_fetch_html net =
              ((None, Some status, Some (HTTP status)), retries k @ [Request k])) \<and>
         (net k = Response status text \<and> 200 \<le> status \<and> status < 300 \<longrightarrow>
            honpo_fetch_html net = ((Some text, Some status, None), retries k @ [Request k])) \<and>
         (transient (net k) \<and> k = RETRY_COUNT \<longrightarrow>
            fst (fst (honpo_fetch_html net)) = None \<and>
            snd (honpo_fetch_html net) = retries RETRY_COUNT @ [Request RETRY_COUNT]) \<and>
         bosyuu_fetch (Response status text) = Inr (if status = 200 then Some text else None) \<and>
         bosyuu_fetch (Raises e) = (if is_RequestException e then Inr None else Inl e)"
proof -
  note at = honpo_fetch_html_at [OF assms]
  have c4: "net k = Response status text \<and> 400 \<le> status \<and> status < 500 \<longrightarrow>
            honpo_fetch_html net =
              ((None, Some status, Some (HTTP status)), retries k @ [Request k])"
    by (simp add: at try_attempt_def Let_def)
  have c2: "net k = Response status text \<and> 200 \<le> status \<and> status < 300 \<longrightarrow>
            honpo_fetch_html net = ((Some text, Some status, None), retries k @ [Request k])"
    by (simp add: at try_attempt_def raise_for_status_def Let_def)
  have c5: "transient (net k) \<and> k = RETRY_COUNT \<longrightarrow>
            fst (fst (honpo_fetch_html net)) = None \<and>
            snd (honpo_fetch_html net) = retries RETRY_COUNT @ [Request RETRY_COUNT]"
  proof
    assume h: "transient (net k) \<and> k = RETRY_COUNT"
    then obtain r where "try_attempt (net k) = Retry r" "fst r = None"
      using try_attempt_transient by blast
    with h show "fst (fst (honpo_fetch_html net)) = None \<and>
            snd (honpo_fetch_html net) = retries RETRY_COUNT @ [Request RETRY_COUNT]"
      by (simp add: at Let_def)
  qed
  have b: "bosyuu_fetch (Response status text) = Inr (if status = 200 then Some text else None)"
          "bosyuu_fetch (Raises e) = (if is_RequestException e then Inr None else Inl e)"
    by (simp_all add: bosyuu_fetch_def)
  from c4 c2 c5 b show ?thesis by blast
qed

text \<open>
  C2, witness: a 404 at the first attempt (one request, no sleep); 503 twice and then 200
  (three requests, sleeps of 2 and 4 seconds, success); a timeout at every attempt
  (three requests, then failure).
\<close>

theorem fetch_outcomes_witness:
  "honpo_fetch_html (\<lambda>attempt. Response 404 []) =
     ((None, Some 404, Some (HTTP 404)), [Request 0]) \<and>
   honpo_fetch_html ex_net_503_503_200 =
     ((Some [0x3C, 0x70, 0x3E], Some 200, None),
      [Request 0, Sleep 2, Request 1, Sleep 4, Request 2]) \<and>
   fst (fst (honpo_fetch_html (\<lambda>attempt. Raises Timeout))) = None \<and>
   snd (honpo_fetch_html (\<lambda>attempt. Raises Timeout)) =
     [Request 0, Sleep 2, Request 1, Sleep 4, Request 2]"
proof -
  have r: "retries 0 = []" "retries 2 = [Request 0, Sleep 2, Request 1, Sleep 4]"
    by (simp_all add: numeral_2_eq_2 RETRY_BACKOFF_SEC_def)
  have a: "honpo_fetch_html (\<lambda>attempt. Response 404 []) =
             ((None, Some 404, Some (HTTP 404)), [Request 0])"
    using fetch_outcomes [of 0 "\<lambda>attempt. Response 404 []" 404 "[]"] by simp
  have "\<forall>i<2. transient (ex_net_503_503_200 i)"
    by (simp add: ex_net_503_503_200_def)
  moreover have "ex_net_503_503_200 2 = Response 200 [0x3C, 0x70, 0x3E]"
    by (simp add: ex_net_503_503_200_def)
  ultimately have b: "honpo_fetch_html ex_net_503_503_200 =
     ((Some [0x3C, 0x70, 0x3E], Some 200, None),
      [Request 0, Sleep 2, Request 1, Sleep 4, Request 2])"
    using fetch_outcomes [of 2 ex_net_503_503_200 200 "[0x3C, 0x70, 0x3E]"] r
    by (simp add: RETRY_COUNT_def)
  have c: "fst (fst (honpo_fetch_html (\<lambda>attempt. Raises Timeout))) = None \<and>
           snd (honpo_fetch_html (\<lambda>attempt. Raises Timeout)) =
             [Request 0, Sleep 2, Request 1, Sleep 4, Request 2]"
    using fetch_outcomes [of 2 "\<lambda>attempt. Raises Timeout"] r
    by (simp add: RETRY_COUNT_def)
  from a b c show ?thesis by blast
qed

text \<open>
  C2, counterexample to the claim as stated (for every fetch function): \<open>fetch\<close> of
  \<open>dairitenbosyuu\<close> answers a 503 with \<open>None\<close> after its single request, and a 2xx
  response other than 200 (here 203 with a body) with \<open>None\<close> as well.
\<close>

theorem bosyuu_fetch_no_retry:
  "bosyuu_fetch (Response 503 []) = Inr None \<and>
   bosyuu_fetch (Response 203 [0x3C, 0x70, 0x3E]) = Inr None"
  by (simp add: bosyuu_fetch_def)

subsection \<open>The structured stage: repeated keys\<close>

lemma map_filter_append: "List.map_filter f (xs @ ys) = List.map_filter f xs @ List.map_filter f ys"
  by (simp add: List.map_filter_def)

lemma honpo_parse_rows_foldl:
  "honpo_parse_rows rows result = foldl (\<lambda>r kv. keep_longer kv r) result (List.map_filter harvest rows)"
  by (induction rows arbitrary: result) (simp_all add: List.map_filter_simps split: option.splits)

lemma honpo_parse_rows_append:
  "honpo_parse_rows (xs @ ys) result = honpo_parse_rows ys (honpo_parse_rows xs result)"
  by (simp add: honpo_parse_rows_foldl map_filter_append)

lemma honpo_parse_tables_scanned:
  "honpo_parse_tables ts result = honpo_parse_rows (concat (scanned ts result)) result"
  by (induction ts arbitrary: result) (simp_all add: Let_def honpo_parse_rows_append)

lemma keep_longer_other: "fst kv \<noteq> k \<Longrightarrow> map_of (keep_longer kv d) k = map_of d k"
  by (simp add: keep_longer_def update_conv')

lemma values_of_snoc:
  "values_of k (kvs @ [kv]) = (if fst kv = k then values_of k kvs @ [snd kv] else values_of k kvs)"
  by (simp add: values_of_def)

lemma first_longest_new:
  assumes "\<forall>w \<in> set vs. length w < length v"
  shows "first_longest v (vs @ [v])"
proof -
  have "v \<notin> set vs" using assms by auto
  then have "takeWhile (\<lambda>w. w \<noteq> v) (vs @ [v]) = vs"
    by (induction vs) auto
  with assms show ?thesis by (auto simp: first_longest_def less_imp_le)
qed

lemma first_longest_keep:
  assumes "first_longest c vs" "length v \<le> length c"
  shows "first_longest c (vs @ [v])"
proof -
  have "c \<in> set vs" using assms(1) by (simp add: first_longest_def)
  then have "takeWhile (\<lambda>w. w \<noteq> c) (vs @ [v]) = takeWhile (\<lambda>w. w \<noteq> c) vs"
    by (simp add: takeWhile_append1)
  with assms show ?thesis by (auto simp: first_longest_def)
qed

lemma longest_fold:
  "(map_of (foldl (\<lambda>r kv. keep_longer kv r) [] kvs) k = Some v \<longrightarrow>
      v \<noteq> [] \<and> first_longest v (values_of k kvs)) \<and>
   (map_of (foldl (\<lambda>r kv. keep_longer kv r) [] kvs) k = None \<longrightarrow>
      (\<forall>w \<in> set (values_of k kvs). w = []))"
proof (induction kvs arbitrary: v rule: rev_induct)
  case Nil
  show ?case by (simp add: values_of_def)
next
  case (snoc kv kvs)
  let ?d = "foldl (\<lambda>r kv. keep_longer kv r) [] kvs"
  have d': "foldl (\<lambda>r kv. keep_longer kv r) [] (kvs @ [kv]) = keep_longer kv ?d" by simp
  show ?case
  proof (cases "fst kv = k")
    case False
    with snoc show ?thesis
      unfolding d' by (simp add: keep_longer_other values_of_snoc)
  next
    case True
    show ?thesis
    proof (cases "map_of ?d k")
      case None
      with snoc have e: "\<forall>w \<in> set (values_of k kvs). w = []" by simp
      show ?thesis
      proof (cases "snd kv = []")
        case True
        with None e \<open>fst kv = k\<close> show ?thesis
          unfolding d' by (simp add: keep_longer_def dict_get_def values_of_snoc)
      next
        case False
        have "\<forall>w \<in> set (values_of k kvs). length w < length (snd kv)"
          using e False by auto
        then have "first_longest (snd kv) (values_of k kvs @ [snd kv])"
          by (rule first_longest_new)
        with None False \<open>fst kv = k\<close> show ?thesis
          unfolding d' by (auto simp: keep_longer_def dict_get_def values_of_snoc update_conv')
      qed
    next
      case (Some c)
      with snoc have c: "c \<noteq> []" "first_longest c (values_of k kvs)" by simp_all
      show ?thesis
      proof (cases "length (snd kv) > length c")
        case True
        have "\<forall>w \<in> set (values_of k kvs). length w < length (snd kv)"
          using c(2) True by (auto simp: first_longest_def)
        then have "first_longest (snd kv) (values_of k kvs @ [snd kv])"
          by (rule first_longest_new)
        moreover have "snd kv \<noteq> []" using True by auto
        ultimately show ?thesis
          using Some True \<open>fst kv = k\<close>
          unfolding d' by (auto simp: keep_longer_def dict_get_def values_of_snoc update_conv')
      next
        case False
        then have "first_longest c (values_of k kvs @ [snd kv])"
          using c(2) by (intro first_longest_keep) simp_all
        with Some False c(1) \<open>fst kv = k\<close> show ?thesis
          unfolding d' by (auto simp: keep_longer_def dict_get_def values_of_snoc)
      qed
    qed
  qed
qed

lemma honpo_parse_company_table_foldl:
  "honpo_parse_company_table soup = foldl (\<lambda>r kv. keep_longer kv r) [] (honpo_harvested soup)"
  by (simp add: honpo_parse_company_table_def honpo_parse_tables_scanned honpo_parse_rows_foldl
        honpo_harvested_def)

lemma bosyuu_table_rows_foldl:
  "bosyuu_table_rows rows kv =
     foldl (\<lambda>d p. AList.update (fst p) (snd p) d) kv (List.map_filter bosyuu_harvest rows)"
  by (induction rows arbitrary: kv) (auto simp: List.map_filter_simps split: option.splits)

lemma bosyuu_tables_loop_foldl:
  "bosyuu_tables_loop ts kv =
     foldl (\<lambda>d p. AList.update (fst p) (snd p) d) kv (List.map_filter bosyuu_harvest (concat ts))"
  by (induction ts arbitrary: kv) (simp_all add: List.map_filter_simps bosyuu_table_rows_foldl map_filter_append)

lemma last_fold:
  "map_of (foldl (\<lambda>d p. AList.update (fst p) (snd p) d) [] kvs) k =
     (case values_of k kvs of [] \<Rightarrow> None | w # ws \<Rightarrow> Some (last (values_of k kvs)))"
proof (induction kvs rule: rev_induct)
  case Nil
  show ?case by (simp add: values_of_def)
next
  case (snoc kv kvs)
  then show ?case
    by (cases "values_of k kvs") (auto simp: values_of_snoc update_conv')
qed

lemmas honpo_label_defs = L_kaishamei_def L_shamei_def L_shozaichi_def L_daihyousha_def
  L_jigyounaiyou_def L_meeru_def L_E_mail_def L_kaishajouhou_def L_setsuritsu_def L_shihonkin_def
  L_meishou_def L_juusho_def L_denwa_def L_TEL_def

lemmas honpo_eval = normalize_text_def strip_def isspace_def normalized_key_def KNOWN_FIELD_MAP_def
  clean_value_def keep_longer_def dict_get_def Let_def List.map_filter_simps

lemma ex_honpo_tables: "honpo_tables ex_honpo_soup = all_tables ex_honpo_soup"
  by (simp add: honpo_tables_def ex_honpo_soup_def)

lemma ex_honpo_parse:
  "honpo_parse_company_table ex_honpo_soup =
     [(L_meishou, [0x41]), (L_setsuritsu, [0x32, 0x30, 0x30, 0x31, 0x2D, 0x30, 0x34]),
      (L_juusho, [0x54])]"
  unfolding honpo_parse_company_table_def ex_honpo_tables
  by (simp add: ex_honpo_soup_def honpo_eval honpo_label_defs)

lemma ex_honpo_harvested:
  "honpo_harvested ex_honpo_soup =
     [(L_meishou, [0x41]), (L_setsuritsu, [0x32, 0x30, 0x30, 0x31]),
      (L_setsuritsu, [0x32, 0x30, 0x30, 0x31, 0x2D, 0x30, 0x34]), (L_juusho, [0x54])]"
  unfolding honpo_harvested_def ex_honpo_tables
  by (simp add: ex_honpo_soup_def honpo_eval honpo_label_defs)

lemma ex_honpo_values:
  "values_of L_setsuritsu (honpo_harvested ex_honpo_soup) =
     [[0x32, 0x30, 0x30, 0x31], [0x32, 0x30, 0x30, 0x31, 0x2D, 0x30, 0x34]]"
  by (simp add: ex_honpo_harvested values_of_def honpo_label_defs)

lemma ex_bosyuu_harvested:
  "bosyuu_harvested ex_bosyuu_soup =
     [(L_setsuritsu, [0x32, 0x30, 0x30, 0x31, 0x2D, 0x30, 0x34]),
      (L_setsuritsu, [0x32, 0x30, 0x30, 0x31])]"
  by (simp add: bosyuu_harvested_def ex_bosyuu_soup_def bosyuu_harvest_def textnorm_def
        strip_def isspace_def List.map_filter_simps L_setsuritsu_def)

lemma ex_bosyuu_values:
  "values_of L_setsuritsu (bosyuu_harvested ex_bosyuu_soup) =
     [[0x32, 0x30, 0x30, 0x31, 0x2D, 0x30, 0x34], [0x32, 0x30, 0x30, 0x31]]"
  by (simp add: ex_bosyuu_harvested values_of_def)

lemma ex_bosyuu_kv:
  "extract_table_kv ex_bosyuu_soup = [(L_setsuritsu, [0x32, 0x30, 0x30, 0x31])]"
  by (simp add: extract_table_kv_def ex_bosyuu_soup_def bosyuu_harvest_def textnorm_def
        strip_def isspace_def L_setsuritsu_def)

text \<open>
  C3 (amended). In \<open>parse_company_table\<close> of \<open>dairitenhonpo\<close>, for the rows of the tables
  scanned: a key of the result has the longest of the values harvested for it (the first
  one of that length), which is not empty; a key is absent from the result only when
  every value harvested for it is empty. In \<open>extract_table_kv\<close> of \<open>dairitenbosyuu\<close>,
  which harvests non-empty values only, a key has the last value harvested for it.
\<close>

theorem longest_value_wins:
  "(map_of (honpo_parse_company_table soup) k = Some v \<longrightarrow>
      v \<noteq> [] \<and> first_longest v (values_of k (honpo_harvested soup))) \<and>
   (map_of (honpo_parse_company_table soup) k = None \<longrightarrow>
      (\<forall>w \<in> set (values_of k (honpo_harvested soup)). w = [])) \<and>
   map_of (extract_table_kv bsoup) k =
     (case values_of k (bosyuu_harvested bsoup) of
        [] \<Rightarrow> None
      | w # ws \<Rightarrow> Some (last (values_of k (bosyuu_harvested bsoup))))"
proof -
  have "extract_table_kv bsoup =
          foldl (\<lambda>d p. AList.update (fst p) (snd p) d) [] (bosyuu_harvested bsoup)"
    by (simp add: extract_table_kv_def bosyuu_tables_loop_foldl bosyuu_harvested_def)
  then have "map_of (extract_table_kv bsoup) k =
     (case values_of k (bosyuu_harvested bsoup) of
        [] \<Rightarrow> None
      | w # ws \<Rightarrow> Some (last (values_of k (bosyuu_harvested bsoup))))"
    by (simp only: last_fold)
  with longest_fold [of "honpo_harvested soup" k v] show ?thesis
    by (simp only: honpo_parse_company_table_foldl) blast
qed

text \<open>
  C3, witness: the year of foundation of the first example document is the longer value,
  from the second table.
\<close>

theorem longest_value_wins_witness:
  "map_of (honpo_parse_company_table ex_honpo_soup) L_setsuritsu
     = Some [0x32, 0x30, 0x30, 0x31, 0x2D, 0x30, 0x34] \<and>
   first_longest [0x32, 0x30, 0x30, 0x31, 0x2D, 0x30, 0x34]
     [[0x32, 0x30, 0x30, 0x31], [0x32, 0x30, 0x30, 0x31, 0x2D, 0x30, 0x34]] \<and>
   map_of (extract_table_kv ex_bosyuu_soup) L_setsuritsu = Some [0x32, 0x30, 0x30, 0x31] \<and>
   map_of (honpo_parse_company_table ex_honpo_soup) L_denwa = None \<and>
   values_of L_denwa (honpo_harvested ex_honpo_soup) = []"
proof -
  have n: "map_of (honpo_parse_company_table ex_honpo_soup) L_denwa = None"
    by (simp add: ex_honpo_parse honpo_label_defs)
  have e: "values_of L_denwa (honpo_harvested ex_honpo_soup) = []"
    using longest_value_wins [of ex_honpo_soup L_denwa "[]" ex_bosyuu_soup] n
    by (simp add: ex_honpo_harvested values_of_def honpo_label_defs)
  have h: "map_of (honpo_parse_company_table ex_honpo_soup) L_setsuritsu
             = Some [0x32, 0x30, 0x30, 0x31, 0x2D, 0x30, 0x34]"
    by (simp add: ex_honpo_parse honpo_label_defs)
  from longest_value_wins [of ex_honpo_soup L_setsuritsu
         "[0x32, 0x30, 0x30, 0x31, 0x2D, 0x30, 0x34]" ex_bosyuu_soup] h
  show ?thesis
    using n e by (simp add: ex_honpo_values ex_bosyuu_values)
qed

text \<open>
  C3, counterexample to the claim as stated (the longest value wins in every script): in
  \<open>extract_table_kv\<close> of \<open>dairitenbosyuu\<close> the second example document gets \<open>2001\<close> as its
  year of foundation, the last value harvested, although \<open>2001-04\<close> is longer.
\<close>

theorem extract_table_kv_last_wins:
  "map_of (extract_table_kv ex_bosyuu_soup) L_setsuritsu = Some [0x32, 0x30, 0x30, 0x31] \<and>
   values_of L_setsuritsu (bosyuu_harvested ex_bosyuu_soup) =
     [[0x32, 0x30, 0x30, 0x31, 0x2D, 0x30, 0x34], [0x32, 0x30, 0x30, 0x31]] \<and>
   \<not> first_longest [0x32, 0x30, 0x30, 0x31] (values_of L_setsuritsu (bosyuu_harvested ex_bosyuu_soup))"
  by (simp add: ex_bosyuu_kv ex_bosyuu_values first_longest_def)

subsection \<open>franchise_no_madoguti: the cascade\<close>

lemma setdefault_keeps: "map_of d k = Some v \<Longrightarrow> map_of (setdefault k' v' d) k = Some v"
  by (cases "k = k'") (simp_all add: setdefault_def update_conv')

lemma stage_lines_keeps:
  "map_of data k = Some v \<Longrightarrow> map_of (stage_lines pairs data) k = Some v"
proof (induction pairs arbitrary: data)
  case Nil
  then show ?case by simp
next
  case (Cons p pairs)
  obtain label w where p: "p = (label, w)" by (cases p)
  have "map_of (if w \<noteq> [] then setdefault (label_to_key label) w data else data) k = Some v"
    using Cons.prems by (simp add: setdefault_keeps)
  from Cons.IH [OF this] show ?case by (simp add: p)
qed

lemma stage_strong_keeps:
  "map_of data k = Some v \<Longrightarrow> map_of (stage_strong strongs data) k = Some v"
proof (induction strongs arbitrary: data)
  case Nil
  then show ?case by simp
next
  case (Cons s strongs)
  obtain strong sib where s: "s = (strong, sib)" by (cases s)
  let ?val = "next_text sib"
  have "map_of (if ?val \<noteq> [] \<and> 0xFF1A \<notin> set ?val \<and> 0x3A \<notin> set ?val \<and> length ?val \<le> 300
                then setdefault (label_to_key (extract_text (Some strong))) ?val data else data) k
          = Some v"
    using Cons.prems by (simp add: setdefault_keeps)
  from Cons.IH [OF this] show ?case by (simp add: s Let_def)
qed

lemma stage_paragraphs_keeps:
  "map_of data k = Some v \<Longrightarrow> map_of (stage_paragraphs ps data) k = Some v"
  by (cases "k = L_jigyounaiyou") (auto simp: stage_paragraphs_def Let_def update_conv')

lemma later_stages_keeps:
  "map_of data k = Some v \<Longrightarrow> map_of (later_stages re sec data) k = Some v"
  unfolding later_stages_def
  by (intro stage_paragraphs_keeps stage_strong_keeps stage_lines_keeps)

lemma merge_section_keeps:
  "map_of info_map k = Some v \<Longrightarrow> map_of (merge_section extracted info_map) k = Some v"
proof (induction extracted arbitrary: info_map)
  case Nil
  then show ?case by simp
next
  case (Cons kv extracted)
  obtain k' v' where kv: "kv = (k', v')" by (cases kv)
  have "map_of (if map_of info_map k' = None \<and> v' \<noteq> [] then AList.update k' v' info_map
                else info_map) k = Some v"
    using Cons.prems by (auto simp: update_conv')
  from Cons.IH [OF this] show ?case by (simp add: kv)
qed

lemma merge_sections_keeps:
  "map_of info_map k = Some v \<Longrightarrow> map_of (merge_sections re sections info_map) k = Some v"
  by (induction sections arbitrary: info_map) (simp_all add: merge_section_keeps)

lemmas madoguti_label_defs = L_kaishajouhou_def L_kaishagaiyou_def L_kaishajouhou_section_def
  L_juusho_def L_shozaichi_def L_setsuritsu_def L_setsuritsunengappi_def L_daihyousha_def
  L_daihyoutorishimariyaku_def L_daihyou_def L_shihonkin_def L_jigyounaiyou_def L_gyoumunaiyou_def
  L_jigyou_def L_juugyouin_def L_shainsuu_def L_juugyouinsuu_def L_URL_def L_koushikisaito_def
  L_saito_def L_hoomupeeji_def L_denwa_def L_TEL_def L_denwabangou_def

lemmas madoguti_eval = label_to_key_def LABEL_PATTERNS_def search_any_ignorecase_def
  ascii_lower_def normalize_space_def extract_text_def strip_def isspace_def Let_def

lemma ex_key_denwa: "label_to_key L_denwa = L_denwa"
  by (simp add: madoguti_eval madoguti_label_defs)

lemma ex_key_TEL: "label_to_key [0x54, 0x45, 0x4C] = L_denwa"
  by (simp add: madoguti_eval madoguti_label_defs)

lemma ex_text_denwa: "extract_text (Some L_denwa) = L_denwa"
  by (simp add: extract_text_def normalize_space_def strip_def isspace_def L_denwa_def)

lemma ex_text_03: "extract_text (Some [0x30, 0x33]) = [0x30, 0x33]"
  by (simp add: extract_text_def normalize_space_def strip_def isspace_def)

lemma ex_structured: "structured_stage ex_section = [(L_denwa, [0x30, 0x33])]"
  by (simp add: structured_stage_def ex_section_def ex_text_denwa ex_text_03 ex_key_denwa)

lemma ex_lines:
  "parse_label_value_text ex_patterns (extract_text (Some (sec_text ex_section)))
     = [([0x54, 0x45, 0x4C], [0x39, 0x39])]"
  by (simp add: parse_label_value_text_def ex_section_def ex_patterns_def extract_text_def
        normalize_space_def strip_def isspace_def is_linebreak_def List.map_filter_simps)

lemma ex_extract:
  "extract_company_info_from_section ex_patterns ex_section = [(L_denwa, [0x30, 0x33])]"
  by (simp add: extract_company_info_from_section_def later_stages_def ex_structured ex_lines
        ex_key_TEL setdefault_def)
     (simp add: ex_section_def stage_paragraphs_def L_denwa_def L_jigyounaiyou_def)

text \<open>
  C4. In \<open>extract_company_info_from_section\<close> the stages that follow the structured stage
  (the labelled lines of the text, the emphasised labels, the paragraphs) leave the value
  of every key that is already set unchanged, so every key set by the structured stage
  has the same value in the result; and the merge of the sections in \<open>scrape_one\<close> leaves
  every key of \<open>info_map\<close> that is already set unchanged. The structured stage is the scan
  of the definition lists and the tables together; inside it an assignment is plain
  (\<open>data[key] = val\<close>).
\<close>

theorem first_writer_wins:
  "(map_of data k = Some v \<longrightarrow>
      map_of (stage_lines pairs data) k = Some v \<and>
      map_of (stage_strong strongs data) k = Some v \<and>
      map_of (stage_paragraphs ps data) k = Some v \<and>
      map_of (merge_section extracted data) k = Some v \<and>
      map_of (merge_sections re sections data) k = Some v) \<and>
   (map_of (structured_stage sec) k = Some v \<longrightarrow>
      map_of (extract_company_info_from_section re sec) k = Some v)"
  by (simp add: stage_lines_keeps stage_strong_keeps stage_paragraphs_keeps merge_section_keeps
        merge_sections_keeps later_stages_keeps extract_company_info_from_section_def)

text \<open>
  C4, witness: the table of the example section sets the telephone number to \<open>03\<close>; the
  labelled line \<open>TEL: 99\<close> maps to the same key and does not change it.
\<close>

theorem first_writer_wins_witness:
  "map_of (structured_stage ex_section) L_denwa = Some [0x30, 0x33] \<and>
   parse_label_value_text ex_patterns (extract_text (Some (sec_text ex_section)))
     = [([0x54, 0x45, 0x4C], [0x39, 0x39])] \<and>
   label_to_key [0x54, 0x45, 0x4C] = L_denwa \<and>
   map_of (extract_company_info_from_section ex_patterns ex_section) L_denwa = Some [0x30, 0x33]"
proof -
  have h: "map_of (structured_stage ex_section) L_denwa = Some [0x30, 0x33]"
    by (simp add: ex_structured)
  from first_writer_wins [of "structured_stage ex_section" L_denwa "[0x30, 0x33]" "[]" "[]" "[]" "[]"
         ex_patterns "[]" ex_section] h
  show ?thesis by (simp add: ex_lines ex_key_TEL)
qed

subsection \<open>Failure of one URL\<close>

lemma map_filter_removeAll:
  "f u = None \<Longrightarrow> List.map_filter f (removeAll u xs) = List.map_filter f xs"
  by (induction xs) (auto simp: List.map_filter_simps split: option.splits)

lemma concat_map_removeAll:
  "f u = [] \<Longrightarrow> concat (map f (removeAll u xs)) = concat (map f xs)"
  by (induction xs) auto

lemma repre_process_url_raised:
  "scrape_company_info_single w u = Inl e \<Longrightarrow> fst (repre_process_url w u) = []"
  by (cases e) (simp_all add: repre_process_url_def)

lemma honpo_extract_record_fetch_failed:
  "fst (fst (honpo_fetch_html (requests_get w u))) = None \<Longrightarrow> honpo_extract_record w u = None"
  by (cases "fst (honpo_fetch_html (requests_get w u))") (simp add: honpo_extract_record_def)

lemma honpo_extract_record_parser_raised:
  "fst (fst (honpo_fetch_html (requests_get w u))) = Some html \<Longrightarrow> BeautifulSoup w html = Inl e \<Longrightarrow>
   honpo_extract_record w u = None"
  by (cases "fst (honpo_fetch_html (requests_get w u))") (simp add: honpo_extract_record_def)

lemma ex_bosyuu_raises:
  "bosyuu_process_url ex_no_patterns ex_world_parser_raises [0x61] = Inl (OtherException [])"
  by (simp add: bosyuu_process_url_def bosyuu_fetch_def ex_world_parser_raises_def)

lemma ex_repre_raises:
  "scrape_company_info_single ex_world_parser_raises [0x61] = Inl (OtherException [])"
  by (simp add: scrape_company_info_single_def repre_fetch_html_def raise_for_status_def
        ex_world_parser_raises_def)

lemmas fetch_eval = honpo_fetch_html_def RETRY_COUNT_def try_attempt_def raise_for_status_def
  on_HTTPError_def Let_def numeral_3_eq_3

lemma ex_honpo_fetch_a:
  "fst (honpo_fetch_html (requests_get ex_honpo_world [0x61])) = (Some [0x78], Some 200, None)"
  by (simp add: fetch_eval ex_honpo_world_def)

lemma ex_honpo_fetch_b:
  "fst (honpo_fetch_html (requests_get ex_honpo_world [0x62])) = (None, Some 404, Some (HTTP 404))"
  by (simp add: fetch_eval ex_honpo_world_def)

lemma ex_honpo_record_a:
  "honpo_extract_record ex_honpo_world [0x61] =
     Some [(L_shutoku_nichiji, [0x31]), (L_shutoku_url, [0x61]), (L_meishou, [0x41]),
           (L_juusho, [0x54]), (L_setsuritsu, [0x32, 0x30, 0x30, 0x31, 0x2D, 0x30, 0x34])]"
  unfolding honpo_extract_record_def ex_honpo_fetch_a
  by (simp add: ex_honpo_world_def ex_honpo_parse dict_get_def strip_def isspace_def
        REQUIRED_COLUMNS_def L_shutoku_nichiji_def L_shutoku_url_def honpo_label_defs)

lemma ex_honpo_record_b: "honpo_extract_record ex_honpo_world [0x62] = None"
  unfolding honpo_extract_record_def ex_honpo_fetch_b by simp

text \<open>
  C7 (amended). A URL whose processing fails yields no record and leaves the results of
  the other URLs as they are: the results of the batch are those of the batch without
  that URL. In \<open>repre\<close> any exception of \<open>scrape_company_info_single\<close> is caught inside
  \<open>process_url\<close>, which returns the empty list; in \<open>dairitenhonpo\<close> a failed fetch and an
  exception of the parser both make \<open>extract_record\<close> return \<open>None\<close>; in \<open>dairitenbosyuu\<close>
  \<open>process_url\<close> returns \<open>None\<close> for a failed fetch but lets an exception through, and it
  is the collection loop of \<open>main\<close> that drops it.
\<close>

theorem failure_isolation:
  "(scrape_company_info_single w1 u = Inl e \<longrightarrow>
      fst (repre_process_url w1 u) = [] \<and>
      repre_all_rows w1 urls =
        concat (map (\<lambda>url. fst (repre_process_url w1 url)) (removeAll u (as_completed w1 urls)))) \<and>
   (fst (fst (honpo_fetch_html (requests_get w2 u))) = None \<or>
    (\<exists>html e'. fst (fst (honpo_fetch_html (requests_get w2 u))) = Some html \<and>
               BeautifulSoup w2 html = Inl e') \<longrightarrow>
      honpo_extract_record w2 u = None \<and>
      honpo_records w2 urls =
        List.map_filter (honpo_extract_record w2) (removeAll u (as_completed w2 urls))) \<and>
   (bosyuu_process_url re w3 u = Inl e \<or> bosyuu_process_url re w3 u = Inr None \<longrightarrow>
      bosyuu_collect (bosyuu_process_url re w3 u) = None \<and>
      bosyuu_results re w3 urls =
        List.map_filter (\<lambda>url. bosyuu_collect (bosyuu_process_url re w3 url))
          (removeAll u (as_completed w3 urls)))"
proof (intro conjI impI)
  assume "scrape_company_info_single w1 u = Inl e"
  then show r: "fst (repre_process_url w1 u) = []" by (rule repre_process_url_raised)
  show "repre_all_rows w1 urls =
        concat (map (\<lambda>url. fst (repre_process_url w1 url)) (removeAll u (as_completed w1 urls)))"
    unfolding repre_all_rows_def
    using concat_map_removeAll [of "\<lambda>url. fst (repre_process_url w1 url)" u, OF r] by simp
next
  assume "fst (fst (honpo_fetch_html (requests_get w2 u))) = None \<or>
    (\<exists>html e'. fst (fst (honpo_fetch_html (requests_get w2 u))) = Some html \<and>
               BeautifulSoup w2 html = Inl e')"
  then show h: "honpo_extract_record w2 u = None"
    using honpo_extract_record_fetch_failed honpo_extract_record_parser_raised by blast
  show "honpo_records w2 urls =
        List.map_filter (honpo_extract_record w2) (removeAll u (as_completed w2 urls))"
    unfolding honpo_records_def
    using map_filter_removeAll [of "honpo_extract_record w2" u, OF h] by simp
next
  assume "bosyuu_process_url re w3 u = Inl e \<or> bosyuu_process_url re w3 u = Inr None"
  then show b: "bosyuu_collect (bosyuu_process_url re w3 u) = None"
    by (auto simp: bosyuu_collect_def)
  show "bosyuu_results re w3 urls =
        List.map_filter (\<lambda>url. bosyuu_collect (bosyuu_process_url re w3 url))
          (removeAll u (as_completed w3 urls))"
    unfolding bosyuu_results_def
    using map_filter_removeAll [of "\<lambda>url. bosyuu_collect (bosyuu_process_url re w3 url)" u, OF b]
    by simp
qed

text \<open>
  C7, witness: in the world whose parser rejects every document, \<open>repre\<close> and
  \<open>dairitenbosyuu\<close> collect nothing for the URL; in the example world of \<open>dairitenhonpo\<close>
  the URL \<open>b\<close> answers 404 and the record of the URL \<open>a\<close> is collected all the same.
\<close>

theorem failure_isolation_witness:
  "scrape_company_info_single (ex_world_parser_raises :: repre_soup world) [0x61]
     = Inl (OtherException []) \<and>
   repre_all_rows ex_world_parser_raises [[0x61]] = [] \<and>
   fst (fst (honpo_fetch_html (requests_get ex_honpo_world [0x62]))) = None \<and>
   honpo_records ex_honpo_world [[0x62], [0x61]] =
     [[(L_shutoku_nichiji, [0x31]), (L_shutoku_url, [0x61]), (L_meishou, [0x41]),
       (L_juusho, [0x54]), (L_setsuritsu, [0x32, 0x30, 0x30, 0x31, 0x2D, 0x30, 0x34])]] \<and>
   bosyuu_process_url ex_no_patterns ex_world_parser_raises [0x61] = Inl (OtherException []) \<and>
   bosyuu_results ex_no_patterns ex_world_parser_raises [[0x61]] = []"
proof -
  have f: "fst (fst (honpo_fetch_html (requests_get ex_honpo_world [0x62]))) = None"
    by (simp add: ex_honpo_fetch_b)
  have c: "as_completed (ex_world_parser_raises :: 'a world) = (\<lambda>urls. urls)"
          "as_completed ex_honpo_world = (\<lambda>urls. urls)"
    by (simp_all add: ex_world_parser_raises_def ex_honpo_world_def)
  from failure_isolation
         [of "ex_world_parser_raises :: repre_soup world" "[0x61]" "OtherException []" "[[0x61]]"
             ex_honpo_world ex_no_patterns "ex_world_parser_raises :: bosyuu_soup world"]
       failure_isolation
         [of "ex_world_parser_raises :: repre_soup world" "[0x62]" "OtherException []"
             "[[0x62], [0x61]]" ex_honpo_world ex_no_patterns
             "ex_world_parser_raises :: bosyuu_soup world"]
       ex_repre_raises ex_bosyuu_raises f
  show ?thesis
    by (simp add: c List.map_filter_simps ex_honpo_record_a)
qed

text \<open>
  C7, counterexample to the claim as stated (the per-URL function never propagates an
  exception): \<open>process_url\<close> of \<open>dairitenbosyuu\<close> has no handler, and an exception of the
  parser leaves it.
\<close>

theorem bosyuu_process_url_propagates:
  "bosyuu_process_url ex_no_patterns ex_world_parser_raises [0x61] = Inl (OtherException [])"
  by (rule ex_bosyuu_raises)

subsection \<open>Exit status\<close>

lemma ex_honpo_urls: "honpo_read_urls ex_rows = Inr [[0x68, 0x74, 0x74, 0x70, 0x3A, 0x2F, 0x2F, 0x61]]"
  by (simp add: honpo_read_urls_def ex_rows_def str_http_def first_cell_url_def strip_def isspace_def
        List.map_filter_simps)

lemma ex_repre_urls:
  "read_urls_from_csv ex_rows = Inr [[0x68, 0x74, 0x74, 0x70, 0x3A, 0x2F, 0x2F, 0x61]]"
  by (simp add: read_urls_from_csv_def ex_rows_def str_http_def strip_def isspace_def
        ascii_lower_def)

text \<open>
  C8 (amended). \<open>main\<close> of \<open>dairitenhonpo\<close> ends with status 0 exactly when the input file
  can be read and gives at least one URL, whatever the number of records; \<open>main\<close> of
  \<open>repre\<close> ends with status 0 exactly when an input path is given, the file can be read
  and gives at least one URL, and the number of workers is a positive integer; otherwise
  both end with status 1 and write nothing. \<open>main\<close> of \<open>dairitenbosyuu\<close> ends with
  status 0 unless reading an existing file raises: for a missing file and for a file
  without URLs it returns normally, with status 0 and nothing written.
\<close>

theorem exit_statuses:
  "(exit_status (honpo_main w2 f) = 0 \<longleftrightarrow> (\<exists>urls. honpo_read_urls f = Inr urls \<and> urls \<noteq> [])) \<and>
   (exit_status (honpo_main w2 f) \<noteq> 0 \<longrightarrow>
      exit_status (honpo_main w2 f) = 1 \<and> written (honpo_main w2 f) = None) \<and>
   (exit_status (repre_main w1 int_of file_at argv) = 0 \<longleftrightarrow>
      2 \<le> length argv \<and>
      (\<exists>urls. read_urls_from_csv (file_at (argv ! 1)) = Inr urls \<and> urls \<noteq> []) \<and>
      (\<exists>n. (if 4 \<le> length argv then int_of (argv ! 3) else Some 10) = Some n \<and> 0 < n)) \<and>
   (exit_status (repre_main w1 int_of file_at argv) \<noteq> 0 \<longrightarrow>
      exit_status (repre_main w1 int_of file_at argv) = 1 \<and>
      written (repre_main w1 int_of file_at argv) = None) \<and>
   (exit_status (bosyuu_main re w3 f) = 0 \<longleftrightarrow> f \<noteq> Unreadable) \<and>
   (f = Missing \<or> f = Rows [] \<longrightarrow>
      exit_status (bosyuu_main re w3 f) = 0 \<and> written (bosyuu_main re w3 f) = None)"
proof -
  have h: "(exit_status (honpo_main w2 f) = 0 \<longleftrightarrow> (\<exists>urls. honpo_read_urls f = Inr urls \<and> urls \<noteq> [])) \<and>
     (exit_status (honpo_main w2 f) \<noteq> 0 \<longrightarrow>
        exit_status (honpo_main w2 f) = 1 \<and> written (honpo_main w2 f) = None)"
    by (cases "honpo_read_urls f") (simp_all add: honpo_main_def)
  let ?mw = "if 4 \<le> length argv then int_of (argv ! 3) else Some 10"
  have r: "(exit_status (repre_main w1 int_of file_at argv) = 0 \<longleftrightarrow>
      2 \<le> length argv \<and>
      (\<exists>urls. read_urls_from_csv (file_at (argv ! 1)) = Inr urls \<and> urls \<noteq> []) \<and>
      (\<exists>n. ?mw = Some n \<and> 0 < n)) \<and>
     (exit_status (repre_main w1 int_of file_at argv) \<noteq> 0 \<longrightarrow>
      exit_status (repre_main w1 int_of file_at argv) = 1 \<and>
      written (repre_main w1 int_of file_at argv) = None)"
  proof (cases "length argv < 2")
    case True
    then show ?thesis by (simp add: repre_main_def)
  next
    case False
    show ?thesis
    proof (cases ?mw)
      case None
      with False show ?thesis by (simp add: repre_main_def)
    next
      case (Some n)
      with False show ?thesis
        by (cases "read_urls_from_csv (file_at (argv ! 1))") (auto simp: repre_main_def)
    qed
  qed
  have b: "(exit_status (bosyuu_main re w3 f) = 0 \<longleftrightarrow> f \<noteq> Unreadable) \<and>
     (f = Missing \<or> f = Rows [] \<longrightarrow>
        exit_status (bosyuu_main re w3 f) = 0 \<and> written (bosyuu_main re w3 f) = None)"
    by (cases f)
       (simp_all add: bosyuu_main_def bosyuu_read_urls_def List.map_filter_simps)
  from h r b show ?thesis by blast
qed

text \<open>
  C8, witness: the file with one URL in a world where no record can be extracted (status
  0 in the three scripts, zero records), the empty file (\<open>dairitenhonpo\<close>: status 1), a
  call without input path (\<open>repre\<close>: status 1) and the missing file (\<open>dairitenbosyuu\<close>:
  status 0).
\<close>

theorem exit_statuses_witness:
  "exit_status (honpo_main (ex_world_parser_raises :: honpo_soup world) ex_rows) = 0 \<and>
   honpo_records (ex_world_parser_raises :: honpo_soup world)
     [[0x68, 0x74, 0x74, 0x70, 0x3A, 0x2F, 0x2F, 0x61]] = [] \<and>
   honpo_main (ex_world_parser_raises :: honpo_soup world) (Rows [])
     = \<lparr>exit_status = 1, written = None\<rparr> \<and>
   exit_status (repre_main (ex_world_parser_raises :: repre_soup world) (\<lambda>s. None)
     (\<lambda>path. ex_rows) [[0x73], [0x69]]) = 0 \<and>
   repre_main (ex_world_parser_raises :: repre_soup world) (\<lambda>s. None) (\<lambda>path. ex_rows) [[0x73]]
     = \<lparr>exit_status = 1, written = None\<rparr> \<and>
   exit_status (bosyuu_main ex_no_patterns (ex_world_parser_raises :: bosyuu_soup world) ex_rows) = 0 \<and>
   bosyuu_main ex_no_patterns (ex_world_parser_raises :: bosyuu_soup world) Missing
     = \<lparr>exit_status = 0, written = None\<rparr>"
proof -
  note t1 = exit_statuses
      [of "ex_world_parser_raises :: honpo_soup world" ex_rows
          "ex_world_parser_raises :: repre_soup world" "\<lambda>s. None" "\<lambda>path. ex_rows" "[[0x73], [0x69]]"
          ex_no_patterns "ex_world_parser_raises :: bosyuu_soup world"]
  note t2 = exit_statuses
      [of "ex_world_parser_raises :: honpo_soup world" "Rows []"
          "ex_world_parser_raises :: repre_soup world" "\<lambda>s. None" "\<lambda>path. ex_rows" "[[0x73]]"
          ex_no_patterns "ex_world_parser_raises :: bosyuu_soup world"]
  note t3 = exit_statuses
      [of "ex_world_parser_raises :: honpo_soup world" Missing
          "ex_world_parser_raises :: repre_soup world" "\<lambda>s. None" "\<lambda>path. ex_rows" "[[0x73]]"
          ex_no_patterns "ex_world_parser_raises :: bosyuu_soup world"]
  have a: "exit_status (honpo_main (ex_world_parser_raises :: honpo_soup world) ex_rows) = 0"
    using t1 by (simp add: ex_honpo_urls)
  have b: "honpo_records (ex_world_parser_raises :: honpo_soup world)
     [[0x68, 0x74, 0x74, 0x70, 0x3A, 0x2F, 0x2F, 0x61]] = []"
    by (simp add: honpo_records_def honpo_extract_record_def fetch_eval ex_world_parser_raises_def
          List.map_filter_simps)
  have c: "honpo_main (ex_world_parser_raises :: honpo_soup world) (Rows [])
     = \<lparr>exit_status = 1, written = None\<rparr>"
    using t2 by (simp add: honpo_read_urls_def)
  have d: "exit_status (repre_main (ex_world_parser_raises :: repre_soup world) (\<lambda>s. None)
     (\<lambda>path. ex_rows) [[0x73], [0x69]]) = 0"
    using t1 by (simp add: ex_repre_urls)
  have e: "repre_main (ex_world_parser_raises :: repre_soup world) (\<lambda>s. None) (\<lambda>path. ex_rows) [[0x73]]
     = \<lparr>exit_status = 1, written = None\<rparr>"
    using t2 by simp
  have f: "exit_status (bosyuu_main ex_no_patterns (ex_world_parser_raises :: bosyuu_soup world) ex_rows) = 0"
    using t1 by (simp add: ex_rows_def)
  have g: "bosyuu_main ex_no_patterns (ex_world_parser_raises :: bosyuu_soup world) Missing
     = \<lparr>exit_status = 0, written = None\<rparr>"
    using t3 by simp
  from a b c d e f g show ?thesis by blast
qed

text \<open>
  C8, counterexample to the claim as stated (non-zero exactly when the URL list is empty
  or unreadable): \<open>main\<close> of \<open>dairitenbosyuu\<close> returns with status 0 when the input file is
  missing and when it has no URL.
\<close>

theorem bosyuu_main_exit_0:
  "bosyuu_main ex_no_patterns (ex_world_parser_raises :: bosyuu_soup world) Missing
     = \<lparr>exit_status = 0, written = None\<rparr> \<and>
   bosyuu_main ex_no_patterns (ex_world_parser_raises :: bosyuu_soup world) (Rows [])
     = \<lparr>exit_status = 0, written = None\<rparr>"
  by (simp add: bosyuu_main_def bosyuu_read_urls_def List.map_filter_simps)

subsection \<open>Records and names\<close>

lemma honpo_add_items_required:
  "k \<in> set REQUIRED_COLUMNS \<Longrightarrow> map_of (honpo_add_items items r) k = map_of r k"
  by (induction items r rule: honpo_add_items.induct) (auto simp: update_conv')

lemma L_meishou_required: "L_meishou \<in> set REQUIRED_COLUMNS"
  by (simp add: REQUIRED_COLUMNS_def)

lemma base_name:
  "map_of [(L_shutoku_nichiji, t), (L_shutoku_url, u), (L_meishou, n), (L_juusho, a)] L_meishou
     = Some n"
  by (simp add: L_shutoku_nichiji_def L_shutoku_url_def L_meishou_def)

lemma honpo_extract_record_name:
  assumes "honpo_extract_record w url = Some rec"
  shows "dict_get rec L_meishou [] \<noteq> []"
proof -
  obtain html status err where f: "fst (honpo_fetch_html (requests_get w url)) = (html, status, err)"
    by (cases "fst (honpo_fetch_html (requests_get w url))")
  show ?thesis
  proof (cases html)
    case None
    with assms f show ?thesis by (simp add: honpo_extract_record_def)
  next
    case (Some h)
    show ?thesis
    proof (cases "BeautifulSoup w h")
      case (Inl e)
      with assms f Some show ?thesis by (simp add: honpo_extract_record_def)
    next
      case (Inr soup)
      let ?td = "honpo_parse_company_table soup"
      let ?name = "strip (dict_get ?td L_meishou [])"
      from assms f Some Inr have n: "?name \<noteq> []"
        by (auto simp: honpo_extract_record_def Let_def split: if_splits)
      from assms f Some Inr n have
        "rec = honpo_add_items ?td
                 [(L_shutoku_nichiji, now w url), (L_shutoku_url, url), (L_meishou, ?name),
                  (L_juusho, strip (dict_get ?td L_juusho []))]"
        by (simp add: honpo_extract_record_def Let_def)
      then have "map_of rec L_meishou = Some ?name"
        by (simp only: honpo_add_items_required [OF L_meishou_required] base_name)
      with n show ?thesis by (simp add: dict_get_def)
    qed
  qed
qed

lemma map_filter_SomeD:
  "y \<in> set (List.map_filter f xs) \<Longrightarrow> \<exists>x \<in> set xs. f x = Some y"
  by (induction xs) (auto simp: List.map_filter_simps split: option.splits)

lemma copy_info_name: "map_of (copy_info items base) L_meishou = map_of base L_meishou"
  by (induction items base rule: copy_info.induct) (auto simp: update_conv')

lemma L_URL_not_meishou: "L_URL \<noteq> L_meishou"
  by (simp add: L_URL_def L_meishou_def)

lemma L_juusho_not_meishou: "L_juusho \<noteq> L_meishou"
  by (simp add: L_juusho_def L_meishou_def)

lemma scrape_one_name:
  assumes "scrape_one re w url = Inr row"
  shows "map_of row L_meishou \<noteq> None"
proof (cases "madoguti_fetch (requests_get w url 0)")
  case (Inl e)
  with assms show ?thesis by (simp add: scrape_one_def)
next
  case (Inr fetched)
  show ?thesis
  proof (cases fetched)
    case None
    with assms Inr have "row = [(L_shutoku_nichiji, now w url), (L_shutoku_url, url),
                               (L_meishou, []), (L_juusho, [])]"
      by (simp add: scrape_one_def)
    then show ?thesis by (simp only: base_name) simp
  next
    case (Some html)
    show ?thesis
    proof (cases "BeautifulSoup w html")
      case (Inl e)
      with assms Inr Some show ?thesis by (simp add: scrape_one_def)
    next
      case soup: (Inr soup)
      define info_map where "info_map = merge_sections re (company_sections soup) []"
      define name where
        "name = name_from_info info_map [L_kaishamei, L_shougou, L_houjinmei, L_meishou]
                  (pick_name re soup)"
      define base1 where
        "base1 = AList.update L_juusho (or_empty (pick_address re info_map soup))
                   (AList.update L_meishou (or_empty name)
                      [(L_shutoku_nichiji, now w url), (L_shutoku_url, url), (L_meishou, []),
                       (L_juusho, [])])"
      define base2 where "base2 = copy_info info_map base1"
      have b1: "map_of base1 L_meishou = Some (or_empty name)"
        unfolding base1_def using L_juusho_not_meishou
        by (simp only: update_conv' base_name fun_upd_apply if_False if_True refl)
           (simp add: L_juusho_not_meishou [symmetric])
      then have b2: "map_of base2 L_meishou = Some (or_empty name)"
        by (simp add: base2_def copy_info_name)
      have "scrape_one re w url =
              Inr (if map_of base2 L_URL = None
                   then (case official_link (soup_links soup) of
                           None \<Rightarrow> base2 | Some href \<Rightarrow> AList.update L_URL href base2)
                   else base2)"
        unfolding scrape_one_def Let_def info_map_def name_def base1_def base2_def
        by (simp only: Inr Some soup sum.case option.case)
      with assms have "row = (if map_of base2 L_URL = None
                   then (case official_link (soup_links soup) of
                           None \<Rightarrow> base2 | Some href \<Rightarrow> AList.update L_URL href base2)
                   else base2)"
        by simp
      moreover have "map_of (AList.update L_URL href base2) L_meishou = Some (or_empty name)" for href
        using b2 L_URL_not_meishou by (simp add: update_conv')
      ultimately show ?thesis
        using b2 by (cases "official_link (soup_links soup)") (simp_all split: if_splits)
    qed
  qed
qed

lemma madoguti_row_name: "map_of (madoguti_row re w url) L_meishou \<noteq> None"
proof (cases "scrape_one re w url")
  case (Inl e)
  have "map_of [(L_shutoku_nichiji, now w url), (L_shutoku_url, url), (L_meishou, []),
                (L_juusho, []), (L_eraa, str_exn w e)] L_meishou = Some []"
    by (simp add: L_shutoku_nichiji_def L_shutoku_url_def L_meishou_def)
  with Inl show ?thesis by (simp add: madoguti_row_def)
next
  case (Inr row)
  with scrape_one_name [OF Inr] show ?thesis by (simp add: madoguti_row_def)
qed

lemma ex_madoguti_scrape:
  "scrape_one ex_patterns ex_madoguti_world [0x61] =
     Inr [(L_shutoku_nichiji, [0x31]), (L_shutoku_url, [0x61]), (L_meishou, []), (L_juusho, [])]"
proof -
  have f: "madoguti_fetch (requests_get ex_madoguti_world [0x61] 0) = Inr (Some [0x3C, 0x70, 0x3E])"
    by (simp add: madoguti_fetch_def ex_madoguti_world_def)
  have p: "BeautifulSoup ex_madoguti_world [0x3C, 0x70, 0x3E] = Inr ex_empty_soup"
    by (simp add: ex_madoguti_world_def)
  have n: "pick_name ex_patterns ex_empty_soup = None"
    by (simp add: pick_name_def ex_empty_soup_def)
  have a: "pick_address ex_patterns [] ex_empty_soup = None"
    by (simp add: pick_address_def ex_patterns_def)
  have t: "now ex_madoguti_world [0x61] = [0x31]"
    by (simp add: ex_madoguti_world_def)
  have s: "company_sections ex_empty_soup = []" "soup_links ex_empty_soup = []"
    by (simp_all add: ex_empty_soup_def)
  have "scrape_one ex_patterns ex_madoguti_world [0x61] =
          Inr (let base2 = AList.update L_juusho []
                             (AList.update L_meishou []
                                [(L_shutoku_nichiji, [0x31]), (L_shutoku_url, [0x61]),
                                 (L_meishou, []), (L_juusho, [])])
               in if map_of base2 L_URL = None then base2 else base2)"
    unfolding scrape_one_def Let_def
    by (simp only: f p s n a t sum.case option.case merge_sections.simps name_from_info.simps
          map_of.simps copy_info.simps or_empty_def official_link_def find.simps option.map)
  then show ?thesis
    by (simp add: L_shutoku_nichiji_def L_shutoku_url_def L_meishou_def L_juusho_def L_URL_def)
qed

text \<open>
  C1 (amended). In \<open>dairitenbosyuu\<close> \<open>parse_page\<close> returns a record only if
  \<open>guess_name_from_headings\<close> finds a name, and every record that \<open>main\<close> collects has a
  name that is not empty. In \<open>dairitenhonpo\<close> \<open>extract_record\<close> returns \<open>None\<close> for a
  fetched document whose table data have no name, and every record that \<open>main\<close> collects
  has a name that is not empty. In \<open>franchise_no_madoguti\<close> \<open>main\<close> collects one row for
  every URL, with a name column that may be empty.
\<close>

theorem record_needs_name:
  "(guess_name_from_headings re soup = None \<longrightarrow> parse_page re t url soup = None) \<and>
   (parse_page re t url soup = Some rec \<longrightarrow>
      (\<exists>n. guess_name_from_headings re soup = Some n \<and> n \<noteq> [])) \<and>
   (\<forall>r \<in> set (bosyuu_results re w3 urls). dict_get r L_meishou [] \<noteq> []) \<and>
   (fst (fst (honpo_fetch_html (requests_get w2 url))) = Some html \<and>
    BeautifulSoup w2 html = Inr hsoup \<and>
    strip (dict_get (honpo_parse_company_table hsoup) L_meishou []) = [] \<longrightarrow>
      honpo_extract_record w2 url = None) \<and>
   (\<forall>r \<in> set (honpo_records w2 urls). dict_get r L_meishou [] \<noteq> []) \<and>
   length (madoguti_results mre w4 urls) = length (as_completed w4 urls) \<and>
   (\<forall>row \<in> set (madoguti_results mre w4 urls). map_of row L_meishou \<noteq> None)"
proof (intro conjI)
  show "guess_name_from_headings re soup = None \<longrightarrow> parse_page re t url soup = None"
    by (simp add: parse_page_def Let_def)
  show "parse_page re t url soup = Some rec \<longrightarrow>
      (\<exists>n. guess_name_from_headings re soup = Some n \<and> n \<noteq> [])"
    by (cases "guess_name_from_headings re soup")
       (auto simp: parse_page_def Let_def split: if_splits)
  show "\<forall>r \<in> set (bosyuu_results re w3 urls). dict_get r L_meishou [] \<noteq> []"
  proof
    fix r assume "r \<in> set (bosyuu_results re w3 urls)"
    then obtain u where "bosyuu_collect (bosyuu_process_url re w3 u) = Some r"
      unfolding bosyuu_results_def by (blast dest: map_filter_SomeD)
    then show "dict_get r L_meishou [] \<noteq> []"
      by (auto simp: bosyuu_collect_def split: sum.splits option.splits if_splits)
  qed
  show "fst (fst (honpo_fetch_html (requests_get w2 url))) = Some html \<and>
    BeautifulSoup w2 html = Inr hsoup \<and>
    strip (dict_get (honpo_parse_company_table hsoup) L_meishou []) = [] \<longrightarrow>
      honpo_extract_record w2 url = None"
    by (cases "fst (honpo_fetch_html (requests_get w2 url))")
       (simp add: honpo_extract_record_def Let_def)
  show "\<forall>r \<in> set (honpo_records w2 urls). dict_get r L_meishou [] \<noteq> []"
  proof
    fix r assume "r \<in> set (honpo_records w2 urls)"
    then obtain u where "honpo_extract_record w2 u = Some r"
      unfolding honpo_records_def by (blast dest: map_filter_SomeD)
    then show "dict_get r L_meishou [] \<noteq> []" by (rule honpo_extract_record_name)
  qed
  show "length (madoguti_results mre w4 urls) = length (as_completed w4 urls)"
    by (simp add: madoguti_results_def)
  show "\<forall>row \<in> set (madoguti_results mre w4 urls). map_of row L_meishou \<noteq> None"
  proof
    fix row assume "row \<in> set (madoguti_results mre w4 urls)"
    then obtain u where "row = madoguti_row mre w4 u"
      unfolding madoguti_results_def by auto
    then show "map_of row L_meishou \<noteq> None" by (simp only: madoguti_row_name) simp
  qed
qed

text \<open>
  C1, witness: the world of \<open>dairitenhonpo\<close> in which the URL \<open>a\<close> gives a record with
  the name \<open>A\<close> and the URL \<open>b\<close> gives none; a document without any content for
  \<open>dairitenbosyuu\<close>, and for \<open>franchise_no_madoguti\<close>, which has one row for it.
\<close>

theorem record_needs_name_witness:
  "guess_name_from_headings ex_no_patterns
     \<lparr>soup_tables = [], soup_strings = [], soup_h1_h2_h3 = [], soup_p_li_div = [], soup_text = []\<rparr>
     = None \<and>
   parse_page ex_no_patterns [0x31] [0x61]
     \<lparr>soup_tables = [], soup_strings = [], soup_h1_h2_h3 = [], soup_p_li_div = [], soup_text = []\<rparr>
     = None \<and>
   honpo_records ex_honpo_world [[0x62], [0x61]] =
     [[(L_shutoku_nichiji, [0x31]), (L_shutoku_url, [0x61]), (L_meishou, [0x41]),
       (L_juusho, [0x54]), (L_setsuritsu, [0x32, 0x30, 0x30, 0x31, 0x2D, 0x30, 0x34])]] \<and>
   dict_get [(L_shutoku_nichiji, [0x31]), (L_shutoku_url, [0x61]), (L_meishou, [0x41]),
       (L_juusho, [0x54]), (L_setsuritsu, [0x32, 0x30, 0x30, 0x31, 0x2D, 0x30, 0x34])]
     L_meishou [] \<noteq> [] \<and>
   honpo_extract_record
     (ex_honpo_world\<lparr>BeautifulSoup := \<lambda>html. Inr \<lparr>h2_h3_headings = [], all_tables = []\<rparr>\<rparr>) [0x61]
     = None \<and>
   length (madoguti_results ex_patterns ex_madoguti_world [[0x62], [0x61]]) = 2"
proof -
  let ?soup = "\<lparr>soup_tables = [], soup_strings = [], soup_h1_h2_h3 = [], soup_p_li_div = [],
                 soup_text = []\<rparr>"
  let ?w = "ex_honpo_world\<lparr>BeautifulSoup := \<lambda>html. Inr \<lparr>h2_h3_headings = [], all_tables = []\<rparr>\<rparr>"
  have g: "guess_name_from_headings ex_no_patterns ?soup = None"
    by (simp add: guess_name_from_headings_def label_candidate_def extract_table_kv_def Let_def)
  have c: "as_completed ex_honpo_world = (\<lambda>urls. urls)"
          "as_completed ex_madoguti_world = (\<lambda>urls. urls)"
    by (simp_all add: ex_honpo_world_def ex_madoguti_world_def)
  have r: "honpo_records ex_honpo_world [[0x62], [0x61]] =
     [[(L_shutoku_nichiji, [0x31]), (L_shutoku_url, [0x61]), (L_meishou, [0x41]),
       (L_juusho, [0x54]), (L_setsuritsu, [0x32, 0x30, 0x30, 0x31, 0x2D, 0x30, 0x34])]]"
    by (simp add: honpo_records_def c List.map_filter_simps ex_honpo_record_a ex_honpo_record_b)
  have f: "fst (fst (honpo_fetch_html (requests_get ?w [0x61]))) = Some [0x78]"
    using ex_honpo_fetch_a by simp
  have e: "strip (dict_get (honpo_parse_company_table \<lparr>h2_h3_headings = [], all_tables = []\<rparr>)
             L_meishou []) = []"
    by (simp add: honpo_parse_company_table_def honpo_tables_def dict_get_def strip_def)
  have n: "honpo_extract_record ?w [0x61] = None"
    using record_needs_name
            [of ex_no_patterns ?soup "[0x31]" "[0x61]" "[]" "ex_world_parser_raises"
                "[[0x62], [0x61]]" ?w "[0x78]" "\<lparr>h2_h3_headings = [], all_tables = []\<rparr>"
                ex_patterns ex_madoguti_world] f e
    by simp
  from record_needs_name
         [of ex_no_patterns ?soup "[0x31]" "[0x61]" "[]" "ex_world_parser_raises"
             "[[0x62], [0x61]]" ex_honpo_world "[0x78]" ex_honpo_soup ex_patterns ex_madoguti_world]
       g r n
  show ?thesis by (simp add: c)
qed

text \<open>
  C1, counterexample to the claim as stated (no row without a name, in every script):
  in \<open>franchise_no_madoguti\<close> a fetched document in which no name is found still gives
  a row, with the empty string as its name, and \<open>main\<close> appends it.
\<close>

theorem scrape_one_row_without_name:
  "pick_name ex_patterns ex_empty_soup = None \<and>
   madoguti_results ex_patterns ex_madoguti_world [[0x61]] =
     [[(L_shutoku_nichiji, [0x31]), (L_shutoku_url, [0x61]), (L_meishou, []), (L_juusho, [])]]"
proof -
  have "as_completed ex_madoguti_world [[0x61]] = [[0x61]]"
    by (simp add: ex_madoguti_world_def)
  then show ?thesis
    by (simp add: madoguti_results_def madoguti_row_def ex_madoguti_scrape pick_name_def
          ex_empty_soup_def)
qed

end
